theory Spec2Isabelle
  imports Complex_Main "HOL-Library.Word" "HOL-Library.Sublist"
begin

section \<open>JavaScript strings\<close>

text \<open>
  A JavaScript string is a sequence of UTF-16 code units, and \<open>length\<close>, \<open>slice\<close>,
  \<open>split\<close>, \<open>trim\<close> and the regular expressions of the sources all work on code units.
  A string is therefore a list of code units, each a natural number; \<open>js\<close> turns an
  ASCII literal into such a list.
\<close>

type_synonym jsstring = "nat list"

definition js :: "string \<Rightarrow> jsstring" where
  "js s = map of_char s"

text \<open>The class \<open>\s\<close> of a regular expression, which is also what \<open>trim\<close> strips:
  the white space and the line terminators of ECMAScript.\<close>

definition isLineTerminator :: "nat \<Rightarrow> bool" where
  "isLineTerminator c \<longleftrightarrow> c = 10 \<or> c = 13 \<or> c = 8232 \<or> c = 8233"

definition isWhiteSpace :: "nat \<Rightarrow> bool" where
  "isWhiteSpace c \<longleftrightarrow>
     c = 9 \<or> c = 10 \<or> c = 11 \<or> c = 12 \<or> c = 13 \<or> c = 32 \<or> c = 160 \<or> c = 5760 \<or>
     (8192 \<le> c \<and> c \<le> 8202) \<or> c = 8232 \<or> c = 8233 \<or> c = 8239 \<or> c = 8287 \<or>
     c = 12288 \<or> c = 65279"

definition isDigit :: "nat \<Rightarrow> bool" where
  "isDigit c \<longleftrightarrow> 48 \<le> c \<and> c \<le> 57"

definition isUpper :: "nat \<Rightarrow> bool" where
  "isUpper c \<longleftrightarrow> 65 \<le> c \<and> c \<le> 90"

definition isLower :: "nat \<Rightarrow> bool" where
  "isLower c \<longleftrightarrow> 97 \<le> c \<and> c \<le> 122"

text \<open>\<open>\w\<close>: letters, digits and the underscore.\<close>

definition isWordChar :: "nat \<Rightarrow> bool" where
  "isWordChar c \<longleftrightarrow> isUpper c \<or> isLower c \<or> isDigit c \<or> c = 95"

text \<open>\<open>String.prototype.trim\<close>.\<close>

definition trim :: "jsstring \<Rightarrow> jsstring" where
  "trim s = rev (dropWhile isWhiteSpace (rev (dropWhile isWhiteSpace s)))"

text \<open>\<open>s.slice(a, b)\<close> for offsets \<open>0 \<le> a\<close> and \<open>0 \<le> b\<close>: the code units from \<open>a\<close> up to
  \<open>b\<close>, both clamped to the length, and nothing when \<open>b \<le> a\<close>.\<close>

definition slice :: "jsstring \<Rightarrow> nat \<Rightarrow> nat \<Rightarrow> jsstring" where
  "slice s a b = take (b - a) (drop a s)"

text \<open>\<open>s.split("\n")\<close>: the pieces between the line feeds; the empty string gives one
  empty piece.\<close>

fun splitNewline :: "jsstring \<Rightarrow> jsstring \<Rightarrow> jsstring list" where
  "splitNewline cur [] = [cur]"
| "splitNewline cur (c # cs) =
     (if c = 10 then cur # splitNewline [] cs else splitNewline (cur @ [c]) cs)"

text \<open>\<open>s.split(/\s+/)\<close>: the pieces between the maximal runs of white space. A run at
  the start or at the end leaves an empty piece there. The flag says that the scan is
  inside a run.\<close>

fun splitSpaces :: "bool \<Rightarrow> jsstring \<Rightarrow> jsstring \<Rightarrow> jsstring list" where
  "splitSpaces inRun cur [] = [cur]"
| "splitSpaces inRun cur (c # cs) =
     (if isWhiteSpace c
      then (if inRun then splitSpaces True cur cs else cur # splitSpaces True [] cs)
      else splitSpaces False (cur @ [c]) cs)"

text \<open>\<open>parts.join(sep)\<close>.\<close>

fun join :: "jsstring \<Rightarrow> jsstring list \<Rightarrow> jsstring" where
  "join sep [] = []"
| "join sep [x] = x"
| "join sep (x # y # ys) = x @ sep @ join sep (y # ys)"

section \<open>Heading patterns\<close>

text \<open>
  \<open>SECTION_PATTERNS\<close> holds eight regular expressions, all anchored with \<open>^\<close> under the
  \<open>m\<close> flag. Each is modelled by the function that matches it at the beginning of a
  string: the result is \<open>None\<close> when the pattern does not match there, and otherwise
  \<open>Some g\<close>, where \<open>g\<close> is capture group 1 (\<open>None\<close> when the pattern has no group, as
  \<open>match[1]\<close> is then undefined). Every quantifier in the patterns is greedy and is
  followed by a class disjoint from its own, so that no backtracking changes a result.

  Under the \<open>i\<close> flag two code units match when their canonical forms are equal. The
  canonical form of an ASCII letter is its upper case, and the one of a code unit from
  128 on is never an ASCII letter.
\<close>

definition canon :: "nat \<Rightarrow> nat" where
  "canon c = (if isLower c then c - 32 else c)"

definition stripKeyword :: "jsstring \<Rightarrow> jsstring \<Rightarrow> jsstring option" where
  "stripKeyword kw s =
     (if length kw \<le> length s \<and> map canon (take (length kw) s) = map canon kw
      then Some (drop (length kw) s) else None)"

text \<open>\<open>\s+\<close>\<close>

definition spaces1 :: "jsstring \<Rightarrow> jsstring option" where
  "spaces1 s = (case s of [] \<Rightarrow> None
                | c # cs \<Rightarrow> if isWhiteSpace c then Some (dropWhile isWhiteSpace cs) else None)"

text \<open>\<open>(\d+)\<close>\<close>

definition digits1 :: "jsstring \<Rightarrow> jsstring option" where
  "digits1 s = (let d = takeWhile isDigit s in if d = [] then None else Some d)"

text \<open>\<open>(\d+[A-Za-z]?)\<close>; under \<open>i\<close> the letter class is the ASCII letters.\<close>

definition sectionNumber :: "jsstring \<Rightarrow> jsstring option" where
  "sectionNumber s =
     (let d = takeWhile isDigit s in
      if d = [] then None
      else Some (d @ (case dropWhile isDigit s of [] \<Rightarrow> []
                      | c # _ \<Rightarrow> if isUpper c \<or> isLower c then [c] else [])))"

text \<open>\<open>(\d+(?:\.\d+)?)\<close>\<close>

definition clauseNumberGroup :: "jsstring \<Rightarrow> jsstring option" where
  "clauseNumberGroup s =
     (let d = takeWhile isDigit s in
      if d = [] then None
      else Some (d @ (case dropWhile isDigit s of [] \<Rightarrow> []
                      | c # r \<Rightarrow> if c = 46 \<and> takeWhile isDigit r \<noteq> []
                                then 46 # takeWhile isDigit r else [])))"

definition isRoman :: "nat \<Rightarrow> bool" where
  "isRoman c \<longleftrightarrow> c \<in> set (js ''IVXLCDM'')"

text \<open>\<open>([IVXLCDM]+|\d+)\<close> under \<open>i\<close>: the Roman alternative is tried first.\<close>

definition orderNumber :: "jsstring \<Rightarrow> jsstring option" where
  "orderNumber s =
     (let r = takeWhile (\<lambda>c. isRoman (canon c)) s in
      if r \<noteq> [] then Some r else digits1 s)"

text \<open>\<open>/^Keyword\s+(number)/im\<close> at the beginning of \<open>s\<close>.\<close>

definition keywordPattern ::
  "jsstring \<Rightarrow> (jsstring \<Rightarrow> jsstring option) \<Rightarrow> jsstring \<Rightarrow> jsstring option option" where
  "keywordPattern kw number s =
     (case stripKeyword kw s of None \<Rightarrow> None
      | Some r \<Rightarrow> (case spaces1 r of None \<Rightarrow> None
          | Some r' \<Rightarrow> (case number r' of None \<Rightarrow> None | Some g \<Rightarrow> Some (Some g))))"

text \<open>\<open>/^(?:^\d+)\.\s+([A-Z][^.]+)/m\<close>\<close>

definition numberedPattern :: "jsstring \<Rightarrow> jsstring option option" where
  "numberedPattern s =
     (if takeWhile isDigit s = [] then None
      else (case dropWhile isDigit s of [] \<Rightarrow> None
        | dot # r \<Rightarrow> if dot \<noteq> 46 then None
            else (case spaces1 r of None \<Rightarrow> None
              | Some r' \<Rightarrow> (case r' of [] \<Rightarrow> None
                  | c # t \<Rightarrow> if isUpper c \<and> takeWhile (\<lambda>x. x \<noteq> 46) t \<noteq> []
                            then Some (Some (c # takeWhile (\<lambda>x. x \<noteq> 46) t)) else None))))"

text \<open>\<open>/^(?:^[IVXLCDM]+)\.\s+/m\<close>\<close>

definition romanPattern :: "jsstring \<Rightarrow> jsstring option option" where
  "romanPattern s =
     (if takeWhile isRoman s = [] then None
      else (case dropWhile isRoman s of [] \<Rightarrow> None
        | dot # r \<Rightarrow> if dot = 46 \<and> spaces1 r \<noteq> None then Some None else None))"

definition isIVX :: "nat \<Rightarrow> bool" where
  "isIVX c \<longleftrightarrow> c \<in> set (js ''ivx'')"

text \<open>\<open>/^(?:\([a-z]\)|\([ivx]+\))/m\<close>\<close>

definition itemPattern :: "jsstring \<Rightarrow> jsstring option option" where
  "itemPattern s =
     (case s of [] \<Rightarrow> None
      | lp # r \<Rightarrow>
          if lp \<noteq> 40 then None
          else if (case r of c # rp # _ \<Rightarrow> isLower c \<and> rp = 41 | _ \<Rightarrow> False) then Some None
          else if takeWhile isIVX r \<noteq> []
                  \<and> (case dropWhile isIVX r of rp # _ \<Rightarrow> rp = 41 | [] \<Rightarrow> False)
               then Some None
          else None)"

definition SECTION_PATTERNS :: "(jsstring \<Rightarrow> jsstring option option) list" where
  "SECTION_PATTERNS =
     [keywordPattern (js ''Section'') sectionNumber,
      keywordPattern (js ''Article'') digits1,
      keywordPattern (js ''Clause'') clauseNumberGroup,
      keywordPattern (js ''Rule'') digits1,
      keywordPattern (js ''Order'') orderNumber,
      numberedPattern,
      romanPattern,
      itemPattern]"

text \<open>
  \<open>line.match(pattern)\<close> returns the leftmost match. With \<open>^\<close> under the \<open>m\<close> flag a match
  starts at offset 0 or just after a line terminator; \<open>lineStarts\<close> lists what follows
  each line terminator of the line, from left to right.
\<close>

fun lineStarts :: "jsstring \<Rightarrow> jsstring list" where
  "lineStarts [] = []"
| "lineStarts (c # cs) = (if isLineTerminator c then cs # lineStarts cs else lineStarts cs)"

fun firstSome :: "('a \<Rightarrow> 'b option) \<Rightarrow> 'a list \<Rightarrow> 'b option" where
  "firstSome f [] = None"
| "firstSome f (x # xs) = (case f x of None \<Rightarrow> firstSome f xs | Some y \<Rightarrow> Some y)"

definition matchLine :: "jsstring \<Rightarrow> (jsstring \<Rightarrow> jsstring option option) \<Rightarrow> jsstring option option" where
  "matchLine line pattern = firstSome pattern (line # lineStarts line)"

section \<open>The legal chunker\<close>

text \<open>
  \<open>DocumentChunk\<close> and its metadata, from \<open>processor.ts\<close>. The character offsets are
  integers: the sliding window subtracts the length of the overlap text from a running
  offset, which can go below zero. \<open>section\<close> is a keyword here, so that field is
  \<open>sectionName\<close>. An identifier is whatever \<open>uuidv4()\<close> returned.
\<close>

record chunkMetadata =
  sectionName :: "jsstring option"
  clauseNumber :: "jsstring option"
  pageNumber :: "nat option"
  startChar :: int
  endChar :: int

record documentChunk =
  chunkId :: jsstring
  content :: jsstring
  chunkIndex :: nat
  metadata :: chunkMetadata

text \<open>The entries of the array that \<open>identifySections\<close> builds (\<open>start\<close>, \<open>end\<close>, \<open>title\<close>,
  \<open>clauseNumber\<close>).\<close>

record sectionSpan =
  secStart :: nat
  secEnd :: nat
  secTitle :: "jsstring option"
  secClauseNumber :: "jsstring option"

definition maxChunkSize :: nat where
  "maxChunkSize = 500"

definition chunkOverlap :: nat where
  "chunkOverlap = 50"

text \<open>\<open>Math.ceil(text.length / 4)\<close>\<close>

definition estimateTokens :: "jsstring \<Rightarrow> nat" where
  "estimateTokens text = (length text + 3) div 4"

text \<open>The first pattern of \<open>SECTION_PATTERNS\<close> that matches the line decides, and the
  inner loop stops there.\<close>

definition firstHeading :: "jsstring \<Rightarrow> jsstring option option" where
  "firstHeading line = firstSome (matchLine line) SECTION_PATTERNS"

definition closePrevious :: "nat \<Rightarrow> sectionSpan list \<Rightarrow> sectionSpan list" where
  "closePrevious currentPos sections =
     (if sections = [] then [] else butlast sections @ [(last sections)\<lparr>secEnd := currentPos\<rparr>])"

fun scanLines :: "nat \<Rightarrow> jsstring list \<Rightarrow> nat \<Rightarrow> sectionSpan list \<Rightarrow> sectionSpan list" where
  "scanLines textLength [] currentPos sections = sections"
| "scanLines textLength (line # lines) currentPos sections =
     scanLines textLength lines (currentPos + length line + 1)
       (case firstHeading line of
          None \<Rightarrow> sections
        | Some group1 \<Rightarrow>
            closePrevious currentPos sections @
            [\<lparr>secStart = currentPos, secEnd = textLength,
              secTitle = Some (slice (trim line) 0 100), secClauseNumber = group1\<rparr>])"

definition identifySections :: "jsstring \<Rightarrow> sectionSpan list" where
  "identifySections text = scanLines (length text) (splitNewline [] text) 0 []"

subsection \<open>Sentences and overlap\<close>

definition isTerminalMark :: "nat \<Rightarrow> bool" where
  "isTerminalMark c \<longleftrightarrow> c = 46 \<or> c = 33 \<or> c = 63"

text \<open>\<open>text.replace(/([.!?])\s+/g, "$1|||")\<close>: a mark followed by white space keeps the
  mark, and the whole run of white space becomes three bars. The flag says that the
  scan is inside such a run.\<close>

fun markBoundaries :: "bool \<Rightarrow> jsstring \<Rightarrow> jsstring" where
  "markBoundaries inRun [] = []"
| "markBoundaries inRun (c # cs) =
     (if inRun \<and> isWhiteSpace c then markBoundaries True cs
      else if isTerminalMark c \<and> (case cs of [] \<Rightarrow> False | d # _ \<Rightarrow> isWhiteSpace d)
      then c # js ''|||'' @ markBoundaries True cs
      else c # markBoundaries False cs)"

text \<open>\<open>.replace(/\|\|\|([A-Z])/g, "|||$1")\<close>: three bars and a capital are replaced by
  themselves.\<close>

fun keepCapitals :: "jsstring \<Rightarrow> jsstring" where
  "keepCapitals (a # b # c # d # cs) =
     (if a = 124 \<and> b = 124 \<and> c = 124 \<and> isUpper d
      then js ''|||'' @ [d] @ keepCapitals cs
      else a # keepCapitals (b # c # d # cs))"
| "keepCapitals cs = cs"

text \<open>\<open>.split("|||")\<close>\<close>

fun splitBars :: "jsstring \<Rightarrow> jsstring \<Rightarrow> jsstring list" where
  "splitBars cur (a # b # c # cs) =
     (if a = 124 \<and> b = 124 \<and> c = 124 then cur # splitBars [] cs
      else splitBars (cur @ [a]) (b # c # cs))"
| "splitBars cur cs = [cur @ cs]"

definition splitIntoSentences :: "jsstring \<Rightarrow> jsstring list" where
  "splitIntoSentences text =
     filter (\<lambda>s. length s > 0)
       (map trim (splitBars [] (keepCapitals (markBoundaries False text))))"

definition getOverlapText :: "jsstring \<Rightarrow> jsstring" where
  "getOverlapText text =
     (let words = splitSpaces False [] text;
          overlapWords = drop (length words - chunkOverlap) words
      in join (js '' '') overlapWords @ js '' '')"

subsection \<open>Splitting a large section\<close>

text \<open>
  The loops of \<open>splitLargeSection\<close> and \<open>slidingWindowChunk\<close> run over the sentences and
  update their local variables; each is the left fold of its body. \<open>uuid n\<close> is the
  value of the \<open>n\<close>-th call of \<open>uuidv4()\<close> made for the document, counted from 0, and
  \<open>drawn\<close> the number of calls made before \<open>splitLargeSection\<close> is entered: a chunk is
  given an identifier exactly when it is pushed.
\<close>

definition splitStep ::
  "(nat \<Rightarrow> jsstring) \<Rightarrow> nat \<Rightarrow> sectionSpan \<Rightarrow> documentChunk list \<times> jsstring \<times> int \<Rightarrow> jsstring
     \<Rightarrow> documentChunk list \<times> jsstring \<times> int" where
  "splitStep uuid drawn sec st sentence =
     (case st of (chunks, currentChunk, chunkStart) \<Rightarrow>
        let potentialChunk = currentChunk @ sentence @ js '' '' in
        if estimateTokens potentialChunk > maxChunkSize then
          let chunks' =
                (if trim currentChunk \<noteq> [] then
                   chunks @
                   [\<lparr>chunkId = uuid (drawn + length chunks), content = trim currentChunk,
                     chunkIndex = 0,
                     metadata = \<lparr>sectionName = secTitle sec, clauseNumber = secClauseNumber sec,
                       pageNumber = None, startChar = chunkStart,
                       endChar = chunkStart + int (length currentChunk)\<rparr>\<rparr>]
                 else chunks);
              overlapText = getOverlapText currentChunk;
              currentChunk' = overlapText @ sentence @ js '' ''
          in (chunks', currentChunk',
              chunkStart + (int (length currentChunk') - int (length overlapText)
                            - int (length sentence) - 1))
        else (chunks, potentialChunk, chunkStart))"

definition splitLargeSection ::
  "(nat \<Rightarrow> jsstring) \<Rightarrow> nat \<Rightarrow> jsstring \<Rightarrow> sectionSpan \<Rightarrow> documentChunk list" where
  "splitLargeSection uuid drawn sectionText sec =
     (case foldl (splitStep uuid drawn sec) ([], [], int (secStart sec))
             (splitIntoSentences sectionText) of
        (chunks, currentChunk, chunkStart) \<Rightarrow>
          if trim currentChunk \<noteq> [] then
            chunks @
            [\<lparr>chunkId = uuid (drawn + length chunks), content = trim currentChunk,
              chunkIndex = 0,
              metadata = \<lparr>sectionName = secTitle sec, clauseNumber = secClauseNumber sec,
                pageNumber = None, startChar = chunkStart,
                endChar = int (secStart sec) + int (length sectionText)\<rparr>\<rparr>]
          else chunks)"

subsection \<open>The sliding window\<close>

definition windowStep ::
  "(nat \<Rightarrow> jsstring) \<Rightarrow> documentChunk list \<times> jsstring \<times> int \<times> int \<Rightarrow> jsstring
     \<Rightarrow> documentChunk list \<times> jsstring \<times> int \<times> int" where
  "windowStep uuid st sentence =
     (case st of (chunks, currentChunk, chunkStart, currentStart) \<Rightarrow>
        let potentialChunk = currentChunk @ sentence @ js '' '' in
        if estimateTokens potentialChunk > maxChunkSize then
          let chunks' =
                (if trim currentChunk \<noteq> [] then
                   chunks @
                   [\<lparr>chunkId = uuid (length chunks), content = trim currentChunk,
                     chunkIndex = length chunks,
                     metadata = \<lparr>sectionName = None, clauseNumber = None,
                       pageNumber = None, startChar = chunkStart,
                       endChar = chunkStart + int (length currentChunk)\<rparr>\<rparr>]
                 else chunks);
              overlapText = getOverlapText currentChunk
          in (chunks', overlapText @ sentence @ js '' '',
              currentStart - int (length overlapText),
              currentStart + int (length sentence) + 1)
        else (chunks, potentialChunk, chunkStart, currentStart + int (length sentence) + 1))"

definition slidingWindowChunk :: "(nat \<Rightarrow> jsstring) \<Rightarrow> jsstring \<Rightarrow> documentChunk list" where
  "slidingWindowChunk uuid text =
     (case foldl (windowStep uuid) ([], [], 0, 0) (splitIntoSentences text) of
        (chunks, currentChunk, chunkStart, currentStart) \<Rightarrow>
          if trim currentChunk \<noteq> [] then
            chunks @
            [\<lparr>chunkId = uuid (length chunks), content = trim currentChunk,
              chunkIndex = length chunks,
              metadata = \<lparr>sectionName = None, clauseNumber = None, pageNumber = None,
                startChar = chunkStart, endChar = int (length text)\<rparr>\<rparr>]
          else chunks)"

subsection \<open>Chunking a document\<close>

text \<open>The inner loop of \<open>chunkDocument\<close> pushes each sub-chunk with its index set to the
  number of chunks pushed so far.\<close>

definition pushSubChunks :: "documentChunk list \<Rightarrow> documentChunk list \<Rightarrow> documentChunk list" where
  "pushSubChunks chunks subChunks =
     foldl (\<lambda>cs subChunk. cs @ [subChunk\<lparr>chunkIndex := length cs\<rparr>]) chunks subChunks"

definition sectionStep ::
  "(nat \<Rightarrow> jsstring) \<Rightarrow> jsstring \<Rightarrow> documentChunk list \<Rightarrow> sectionSpan \<Rightarrow> documentChunk list" where
  "sectionStep uuid text chunks sec =
     (let sectionText = slice text (secStart sec) (secEnd sec) in
      if estimateTokens sectionText \<le> maxChunkSize then
        chunks @
        [\<lparr>chunkId = uuid (length chunks), content = trim sectionText,
          chunkIndex = length chunks,
          metadata = \<lparr>sectionName = secTitle sec, clauseNumber = secClauseNumber sec,
            pageNumber = None, startChar = int (secStart sec), endChar = int (secEnd sec)\<rparr>\<rparr>]
      else pushSubChunks chunks (splitLargeSection uuid (length chunks) sectionText sec))"

definition chunkDocument :: "(nat \<Rightarrow> jsstring) \<Rightarrow> jsstring \<Rightarrow> documentChunk list" where
  "chunkDocument uuid text =
     (let sections = identifySections text in
      if length sections = 0 then slidingWindowChunk uuid text
      else foldl (sectionStep uuid text) [] sections)"

section \<open>Text normalisation\<close>

text \<open>\<open>.replace(/\bl\b/g, "I")\<close>: a lower-case l with no word character before it and
  none after it becomes a capital I. The flag says that the code unit before is a word
  character.\<close>

fun fixLoneL :: "bool \<Rightarrow> jsstring \<Rightarrow> jsstring" where
  "fixLoneL afterWord [] = []"
| "fixLoneL afterWord (c # cs) =
     (if c = 108 \<and> \<not> afterWord \<and> (case cs of [] \<Rightarrow> True | d # _ \<Rightarrow> \<not> isWordChar d)
      then 73 # fixLoneL True cs
      else c # fixLoneL (isWordChar c) cs)"

text \<open>\<open>.replace(/\s+/g, " ")\<close>\<close>

fun collapseSpaces :: "bool \<Rightarrow> jsstring \<Rightarrow> jsstring" where
  "collapseSpaces inRun [] = []"
| "collapseSpaces inRun (c # cs) =
     (if isWhiteSpace c
      then (if inRun then collapseSpaces True cs else 32 # collapseSpaces True cs)
      else c # collapseSpaces False cs)"

text \<open>A global replacement of one code unit by a string.\<close>

definition replaceUnit :: "nat \<Rightarrow> jsstring \<Rightarrow> jsstring \<Rightarrow> jsstring" where
  "replaceUnit u r s = concat (map (\<lambda>c. if c = u then r else [c]) s)"

text \<open>In the source the two quote classes hold the ASCII quotes themselves (code units
  34 and 39); the dash is U+2013 and the ellipsis U+2026.\<close>

definition normalizeText :: "jsstring \<Rightarrow> jsstring" where
  "normalizeText t =
     trim (replaceUnit 8230 (js ''...'')
       (replaceUnit 8211 (js ''-'')
         (replaceUnit 39 [39]
           (replaceUnit 34 [34]
             (collapseSpaces False (fixLoneL False t))))))"

section \<open>Text extraction\<close>

text \<open>
  A thrown value is an \<open>Error\<close> with its message, or something that is not an \<open>Error\<close>
  object (a library may throw anything). A \<open>Buffer\<close> is a list of bytes;
  \<open>toString('latin1')\<close> reads each byte as one code unit.
\<close>

datatype error = Error jsstring | NonError

type_synonym buffer = "8 word list"

definition latin1 :: "buffer \<Rightarrow> jsstring" where
  "latin1 b = map unat b"

record documentInfo =
  title :: "jsstring option"
  author :: "jsstring option"
  creationDate :: "jsstring option"

record processedDocument =
  docText :: jsstring
  pages :: nat
  docInfo :: documentInfo

text \<open>What \<open>pdf-parse\<close> returns.\<close>

record pdfInfo =
  Title :: "jsstring option"
  Author :: "jsstring option"
  CreationDate :: "jsstring option"

record pdfData =
  pdfText :: jsstring
  numpages :: nat
  info :: "pdfInfo option"

text \<open>The loop \<open>while ((match = regex.exec(content)) !== null)\<close> over \<open>/\(([^)]+)\)/g\<close>
  collects group 1 of every match from left to right. The state is \<open>None\<close> outside
  parentheses and \<open>Some acc\<close> after an opening parenthesis, with the code units read
  since. An empty pair \<open>()\<close> is no match, and neither is an opening parenthesis that is
  never closed.\<close>

fun parenGroups :: "jsstring option \<Rightarrow> jsstring \<Rightarrow> jsstring list" where
  "parenGroups st [] = []"
| "parenGroups None (c # cs) =
     (if c = 40 then parenGroups (Some []) cs else parenGroups None cs)"
| "parenGroups (Some acc) (c # cs) =
     (if c = 41 then (if acc = [] then parenGroups None cs else acc # parenGroups None cs)
      else parenGroups (Some (acc @ [c])) cs)"

text \<open>\<open>/^[\x20-\x7E\s]+$/.test(text) && text.length > 2\<close>\<close>

definition isReadable :: "jsstring \<Rightarrow> bool" where
  "isReadable t \<longleftrightarrow>
     t \<noteq> [] \<and> list_all (\<lambda>c. (32 \<le> c \<and> c \<le> 126) \<or> isWhiteSpace c) t \<and> length t > 2"

definition extractTextFromPDFBuffer :: "buffer \<Rightarrow> jsstring" where
  "extractTextFromPDFBuffer b =
     (let content = latin1 b;
          textMatches = filter isReadable (parenGroups None content)
      in trim (collapseSpaces False (join (js '' '') textMatches)))"

text \<open>
  The two parsers are libraries outside the repository: \<open>pdfParse b\<close> and
  \<open>extractRawText b\<close> are \<open>None\<close> when the library throws on the buffer (or cannot be
  loaded), and the parsed result otherwise. \<open>utf8\<close> is \<open>buffer.toString("utf-8")\<close>.
\<close>

record parsers =
  pdfParse :: "buffer \<Rightarrow> pdfData option"
  extractRawText :: "buffer \<Rightarrow> jsstring option"
  utf8 :: "buffer \<Rightarrow> jsstring"

definition extractFromPDF :: "parsers \<Rightarrow> buffer \<Rightarrow> error + processedDocument" where
  "extractFromPDF ps b =
     (case pdfParse ps b of
        Some d \<Rightarrow>
          Inr \<lparr>docText = pdfText d, pages = numpages d,
               docInfo = \<lparr>title = Option.bind (info d) Title,
                          author = Option.bind (info d) Author,
                          creationDate = Option.bind (info d) CreationDate\<rparr>\<rparr>
      | None \<Rightarrow>
          (let textContent = extractTextFromPDFBuffer b in
           if textContent \<noteq> [] \<and> length textContent > 50
           then Inr \<lparr>docText = textContent, pages = 1,
                     docInfo = \<lparr>title = None, author = None, creationDate = None\<rparr>\<rparr>
           else Inl (Error (js ''Failed to extract text from PDF. Try uploading a TXT or DOCX file instead.''))))"

definition extractFromDOCX :: "parsers \<Rightarrow> buffer \<Rightarrow> error + processedDocument" where
  "extractFromDOCX ps b =
     (case extractRawText ps b of
        Some v \<Rightarrow>
          Inr \<lparr>docText = v, pages = 1,
               docInfo = \<lparr>title = None, author = None, creationDate = None\<rparr>\<rparr>
      | None \<Rightarrow> Inl (Error (js ''Failed to extract text from DOCX'')))"

text \<open>
  \<open>fileType.toLowerCase()\<close> is modelled on the ASCII letters. The case labels of
  \<open>extractText\<close> are ASCII strings without the letter k, and no code unit outside ASCII
  has a lower case made of such letters, so the switch takes the same branch as with
  the full Unicode mapping.
\<close>

definition toLowerCase :: "jsstring \<Rightarrow> jsstring" where
  "toLowerCase s = map (\<lambda>c. if isUpper c then c + 32 else c) s"

definition extractText ::
  "parsers \<Rightarrow> buffer \<Rightarrow> jsstring \<Rightarrow> jsstring \<Rightarrow> error + processedDocument" where
  "extractText ps b fileType filename =
     (let t = toLowerCase fileType in
      if t = js ''pdf'' \<or> t = js ''application/pdf'' then extractFromPDF ps b
      else if t = js ''docx''
              \<or> t = js ''application/vnd.openxmlformats-officedocument.wordprocessingml.document''
      then extractFromDOCX ps b
      else if t = js ''txt'' \<or> t = js ''text/plain''
      then Inr \<lparr>docText = utf8 ps b, pages = 1,
                docInfo = \<lparr>title = Some filename, author = None, creationDate = None\<rparr>\<rparr>
      else Inl (Error (js ''Unsupported file type: '' @ fileType)))"

section \<open>The retrieval pipeline\<close>

subsection \<open>Search results, citations and confidence\<close>

text \<open>
  \<open>SearchResult\<close> from \<open>vector/index.ts\<close> and \<open>Citation\<close>, \<open>RAGQueryResult\<close> from
  \<open>pipeline.ts\<close>. Field names that several interfaces share carry a prefix here.
  A JavaScript number that holds a score is a real number: rounding is not modelled.
\<close>

record vectorMetadata =
  documentId :: jsstring
  userId :: jsstring
  vecChunkIndex :: nat
  documentType :: "jsstring option"
  vecSection :: "jsstring option"
  vecPageNumber :: "nat option"
  isCorpus :: "bool option"

record searchResult =
  resultId :: jsstring
  resultContent :: jsstring
  score :: real
  resultMetadata :: vectorMetadata

record citation =
  source :: jsstring
  citedSection :: "jsstring option"
  citedContent :: jsstring
  relevanceScore :: real

record ragQueryResult =
  answer :: jsstring
  citations :: "citation list"
  confidence :: real
  tokensUsed :: nat
  processingTimeMs :: int

definition extractCitations :: "searchResult list \<Rightarrow> citation list" where
  "extractCitations results =
     map (\<lambda>r. \<lparr>source = documentId (resultMetadata r),
               citedSection = vecSection (resultMetadata r),
               citedContent = slice (resultContent r) 0 200 @
                              (if length (resultContent r) > 200 then js ''...'' else []),
               relevanceScore = score r\<rparr>) results"

text \<open>Step 6 of \<open>query\<close>: \<open>reduce\<close> adds the scores from the left, starting at 0.\<close>

definition avgScore :: "searchResult list \<Rightarrow> real" where
  "avgScore searchResults =
     foldl (\<lambda>sum r. sum + score r) 0 searchResults / real (length searchResults)"

text \<open>The decimal digits of a number, for \<open>${i + 1}\<close>.\<close>

function showNat :: "nat \<Rightarrow> jsstring" where
  "showNat n = (if n < 10 then [48 + n] else showNat (n div 10) @ [48 + n mod 10])"
  by pat_completeness auto
termination
  by (relation "measure id") auto

declare showNat.simps [simp del]

definition truthy :: "jsstring option \<Rightarrow> bool" where
  "truthy v \<longleftrightarrow> (case v of None \<Rightarrow> False | Some t \<Rightarrow> t \<noteq> [])"

definition buildContext :: "searchResult list \<Rightarrow> jsstring" where
  "buildContext results =
     join (js ''\<newline>\<newline>---\<newline>\<newline>'')
       (map (\<lambda>(i, r).
          let sectionInfo =
                (case vecSection (resultMetadata r) of
                   None \<Rightarrow> []
                 | Some t \<Rightarrow> if t \<noteq> [] then js '' ('' @ t @ js '')'' else [])
          in js ''[Source '' @ showNat (i + 1) @ sectionInfo @ js '']:\<newline>'' @ resultContent r)
          (zip [0..<length results] results))"

subsection \<open>The stores and the outside services\<close>

text \<open>
  The pipeline writes to four tables of the metadata store, to the vector index and
  calls the language-model service. The state holds the rows written, the points
  upserted and the calls made to that service, each in order. A row of \<open>documents\<close> has the columns
  that the pipeline reads or writes. A write to the store is applied as issued (the
  client returns errors instead of throwing, and the pipeline does not read them); an
  update of a document that has no row changes nothing.
\<close>

datatype docStatus = pending | processing | completed | failed

record documentRow =
  rowTitle :: "jsstring option"
  original_filename :: jsstring
  status :: docStatus
  raw_text :: "jsstring option"
  summary :: "jsstring option"
  processed_at :: "jsstring option"

record chunkRecord =
  rec_id :: jsstring
  rec_document_id :: jsstring
  rec_chunk_index :: nat
  rec_content :: jsstring
  rec_metadata :: chunkMetadata
  rec_vector_id :: jsstring

record vectorDocument =
  vecId :: jsstring
  vecContent :: jsstring
  embedding :: "real list"
  vecMetadata :: vectorMetadata

record queryRecord =
  q_user_id :: jsstring
  q_document_id :: "jsstring option"
  q_query_text :: jsstring
  q_response_text :: jsstring
  q_citations :: "citation list"
  q_confidence_score :: real
  q_tokens_used :: nat
  q_processing_time_ms :: int

text \<open>A row of \<open>usage_tracking\<close>: the user, and the metadata of the action.\<close>

datatype usageEvent =
  DocumentUpload jsstring jsstring nat int
| QueryUsage jsstring "jsstring option" nat nat

datatype llmRole = system | user | assistant

record llmMessage =
  role :: llmRole
  msgContent :: jsstring

record llmResponse =
  llmContent :: jsstring
  llmTokensUsed :: nat

text \<open>A request to the language-model service: \<open>chat(messages)\<close>, or
  \<open>answerWithContext(context, query, documentTitle)\<close>.\<close>

datatype llmRequest =
  Chat "llmMessage list"
| AnswerWithContext jsstring jsstring "jsstring option"

record world =
  documents :: "jsstring \<rightharpoonup> documentRow"
  document_chunks :: "chunkRecord list"
  queries :: "queryRecord list"
  usage_tracking :: "usageEvent list"
  vectorPoints :: "vectorDocument list"
  llmRequests :: "llmRequest list"

datatype searchFilter = ByDocument jsstring | ByUser jsstring

text \<open>
  What the outside answers. \<open>supabaseConfigured\<close> says that \<open>createServiceClient()\<close>
  finds its environment variables; it throws otherwise. \<open>uuidv4 n\<close> is the \<open>n\<close>-th
  identifier drawn and \<open>dateNow n\<close> the \<open>n\<close>-th reading of the clock during the call.
  \<open>embed\<close> is what the embedding service returns for a text (\<open>hashEmbedding\<close> below,
  with the lower-casing of the platform); what is proved about the pipeline holds
  whatever it returns. \<open>upsertVectors\<close> gives the value thrown, if any; \<open>search\<close>, \<open>chat\<close> and
  \<open>answerWithContext\<close> give the value thrown or the value returned.
\<close>

record services =
  supabaseConfigured :: bool
  fileParsers :: parsers
  uuidv4 :: "nat \<Rightarrow> jsstring"
  dateNow :: "nat \<Rightarrow> int"
  toISOString :: "int \<Rightarrow> jsstring"
  embed :: "jsstring \<Rightarrow> real list"
  upsertVectors :: "vectorDocument list \<Rightarrow> error option"
  search :: "real list \<Rightarrow> nat \<Rightarrow> searchFilter \<Rightarrow> error + searchResult list"
  chat :: "llmMessage list \<Rightarrow> error + llmResponse"
  answerWithContext :: "jsstring \<Rightarrow> jsstring \<Rightarrow> jsstring option \<Rightarrow> error + llmResponse"

definition missingSupabase :: error where
  "missingSupabase = Error (js ''Missing Supabase environment variables'')"

definition updateDocument :: "jsstring \<Rightarrow> (documentRow \<Rightarrow> documentRow) \<Rightarrow> world \<Rightarrow> world" where
  "updateDocument docId f w =
     (case documents w docId of
        None \<Rightarrow> w
      | Some row \<Rightarrow> w\<lparr>documents := (documents w)(docId \<mapsto> f row)\<rparr>)"

subsection \<open>Query\<close>

record queryOptions =
  optDocumentId :: "jsstring option"
  topK :: "nat option"

text \<open>The answer of the branch \<open>searchResults.length === 0\<close>; the warning sign is the
  code units U+26A0 and U+FE0F.\<close>

definition noResultsAnswer :: jsstring where
  "noResultsAnswer =
     js ''I couldn't find relevant information to answer your question. Please try rephrasing or ensure you have uploaded relevant documents.''
     @ [10, 10, 9888, 65039]
     @ js '' This is for informational purposes only, not legal advice.''"

text \<open>Steps 1 and 2 of \<open>query\<close>: the question is embedded and the index searched, for
  \<open>topK\<close> results (5 by default), within the document when an identifier is given and
  within the documents of the user otherwise.\<close>

definition vectorSearch ::
  "services \<Rightarrow> jsstring \<Rightarrow> jsstring \<Rightarrow> queryOptions \<Rightarrow> error + searchResult list" where
  "vectorSearch sv uid queryText options =
     (let limit = (case topK options of None \<Rightarrow> 5 | Some k \<Rightarrow> k);
          queryEmbedding = embed sv queryText;
          searchFilter = (case optDocumentId options of
                            None \<Rightarrow> ByUser uid
                          | Some d \<Rightarrow> if d \<noteq> [] then ByDocument d else ByUser uid)
      in search sv queryEmbedding limit searchFilter)"

text \<open>
  \<open>query\<close> returns the value thrown or the result, and the state after the call.
  Whatever is thrown inside the \<open>try\<close> is logged and thrown again.
\<close>

definition query ::
  "services \<Rightarrow> world \<Rightarrow> jsstring \<Rightarrow> jsstring \<Rightarrow> queryOptions
     \<Rightarrow> (error + ragQueryResult) \<times> world" where
  "query sv w uid queryText options =
     (let startTime = dateNow sv 0;
          docId = optDocumentId options
      in case vectorSearch sv uid queryText options of
           Inl e \<Rightarrow> (Inl e, w)
         | Inr searchResults \<Rightarrow>
             if length searchResults = 0 then
               (Inr \<lparr>answer = noResultsAnswer, citations = [], confidence = 0,
                     tokensUsed = 0, processingTimeMs = dateNow sv 1 - startTime\<rparr>, w)
             else
               let context = buildContext searchResults;
                   cites = extractCitations searchResults
               in if truthy docId \<and> \<not> supabaseConfigured sv then (Inl missingSupabase, w)
                  else
                    let documentTitle =
                          (case docId of
                             None \<Rightarrow> None
                           | Some d \<Rightarrow>
                               if d = [] then None
                               else (case documents w d of
                                       None \<Rightarrow> None
                                     | Some row \<Rightarrow>
                                         if truthy (rowTitle row) then rowTitle row
                                         else Some (original_filename row)));
                        w1 = w\<lparr>llmRequests := llmRequests w @
                                [AnswerWithContext context queryText documentTitle]\<rparr>
                    in case answerWithContext sv context queryText documentTitle of
                         Inl e \<Rightarrow> (Inl e, w1)
                       | Inr llmResponse \<Rightarrow>
                           let conf = min (avgScore searchResults) 1 in
                           if \<not> supabaseConfigured sv then (Inl missingSupabase, w1)
                           else
                             let w2 = w1\<lparr>queries := queries w1 @
                                        [\<lparr>q_user_id = uid,
                                          q_document_id = (if truthy docId then docId else None),
                                          q_query_text = queryText,
                                          q_response_text = llmContent llmResponse,
                                          q_citations = cites,
                                          q_confidence_score = conf,
                                          q_tokens_used = llmTokensUsed llmResponse,
                                          q_processing_time_ms = dateNow sv 1 - startTime\<rparr>]\<rparr>;
                                 w3 = w2\<lparr>usage_tracking := usage_tracking w2 @
                                        [QueryUsage uid docId (length queryText)
                                           (length searchResults)]\<rparr>
                             in (Inr \<lparr>answer = llmContent llmResponse, citations = cites,
                                       confidence = conf,
                                       tokensUsed = llmTokensUsed llmResponse,
                                       processingTimeMs = dateNow sv 2 - startTime\<rparr>, w3))"

subsection \<open>Ingestion\<close>

datatype ingestionStatus = IngestCompleted | IngestFailed

record documentIngestionResult =
  resDocumentId :: jsstring
  chunksCreated :: nat
  resStatus :: ingestionStatus
  resError :: "jsstring option"

definition summaryMessages :: "jsstring \<Rightarrow> llmMessage list" where
  "summaryMessages normalizedText =
     [\<lparr>role = system,
       msgContent = js ''You are a legal document summarizer. Provide a concise 2-3 paragraph summary of the following legal document, highlighting key points, parties involved, and important dates or obligations.''\<rparr>,
      \<lparr>role = user,
       msgContent = js ''Summarize this legal document:\<newline>\<newline>'' @ slice normalizedText 0 8000 @
                    (if length normalizedText > 8000 then js ''...'' else [])\<rparr>]"

text \<open>The body of the \<open>try\<close> after the first update: the value thrown or the result, and
  the state reached.\<close>

definition ingestSteps ::
  "services \<Rightarrow> world \<Rightarrow> int \<Rightarrow> jsstring \<Rightarrow> jsstring \<Rightarrow> buffer \<Rightarrow> jsstring \<Rightarrow> jsstring
     \<Rightarrow> (error + documentIngestionResult) \<times> world" where
  "ingestSteps sv w startTime docId uid fileBuffer fileType filename =
     (case extractText (fileParsers sv) fileBuffer fileType filename of
        Inl e \<Rightarrow> (Inl e, w)
      | Inr processed \<Rightarrow>
          let normalizedText = normalizeText (docText processed);
              chunks = chunkDocument (uuidv4 sv) normalizedText
          in if length chunks = 0
             then (Inl (Error (js ''No text could be extracted from document'')), w)
             else
               let chunkTexts = map content chunks;
                   embeddings = map (embed sv) chunkTexts;
                   chunkRecords =
                     map (\<lambda>(i, chunk).
                            \<lparr>rec_id = chunkId chunk, rec_document_id = docId,
                             rec_chunk_index = i, rec_content = content chunk,
                             rec_metadata = metadata chunk, rec_vector_id = chunkId chunk\<rparr>)
                         (zip [0..<length chunks] chunks);
                   w1 = w\<lparr>document_chunks := document_chunks w @ chunkRecords\<rparr>;
                   vectorDocs =
                     map (\<lambda>(i, chunk).
                            \<lparr>vecId = chunkId chunk, vecContent = content chunk,
                             embedding = embeddings ! i,
                             vecMetadata =
                               \<lparr>documentId = docId, userId = uid, vecChunkIndex = i,
                                documentType = None,
                                vecSection = sectionName (metadata chunk),
                                vecPageNumber = pageNumber (metadata chunk),
                                isCorpus = None\<rparr>\<rparr>)
                         (zip [0..<length chunks] chunks)
               in case upsertVectors sv vectorDocs of
                    Some e \<Rightarrow> (Inl e, w1)
                  | None \<Rightarrow>
                      let w2 = w1\<lparr>vectorPoints := vectorPoints w1 @ vectorDocs\<rparr>;
                          w3 = w2\<lparr>llmRequests := llmRequests w2 @
                                 [Chat (summaryMessages normalizedText)]\<rparr>
                      in case chat sv (summaryMessages normalizedText) of
                           Inl e \<Rightarrow> (Inl e, w3)
                         | Inr summaryResponse \<Rightarrow>
                             let w4 = updateDocument docId
                                        (\<lambda>row. row\<lparr>status := completed,
                                           raw_text := Some normalizedText,
                                           summary := Some (llmContent summaryResponse),
                                           processed_at := Some (toISOString sv (dateNow sv 1))\<rparr>)
                                        w3;
                                 w5 = w4\<lparr>usage_tracking := usage_tracking w4 @
                                        [DocumentUpload uid docId (length chunks)
                                           (dateNow sv 2 - startTime)]\<rparr>
                             in (Inr \<lparr>resDocumentId = docId, chunksCreated = length chunks,
                                       resStatus = IngestCompleted, resError = None\<rparr>, w5))"

text \<open>
  \<open>ingestDocument\<close>: the service client is created before the \<open>try\<close>, so that a missing
  configuration is thrown to the caller. Anything thrown inside the \<open>try\<close> is caught:
  the document is marked failed and a failure result is returned.
\<close>

definition ingestDocument ::
  "services \<Rightarrow> world \<Rightarrow> jsstring \<Rightarrow> jsstring \<Rightarrow> buffer \<Rightarrow> jsstring \<Rightarrow> jsstring
     \<Rightarrow> (error + documentIngestionResult) \<times> world" where
  "ingestDocument sv w docId uid fileBuffer fileType filename =
     (let startTime = dateNow sv 0 in
      if \<not> supabaseConfigured sv then (Inl missingSupabase, w)
      else
        let w0 = updateDocument docId (\<lambda>row. row\<lparr>status := processing\<rparr>) w in
        case ingestSteps sv w0 startTime docId uid fileBuffer fileType filename of
          (Inr result, w') \<Rightarrow> (Inr result, w')
        | (Inl e, w') \<Rightarrow>
            (Inr \<lparr>resDocumentId = docId, chunksCreated = 0, resStatus = IngestFailed,
                  resError = Some (case e of Error m \<Rightarrow> m | NonError \<Rightarrow> js ''Unknown error'')\<rparr>,
             updateDocument docId (\<lambda>row. row\<lparr>status := failed\<rparr>) w'))"

section \<open>The embedding service\<close>

unbundle bit_operations_syntax















section \<open>Sample data\<close>

text \<open>
  Concrete services, stores and inputs on which the theorems below are instantiated.
  In \<open>sampleParsers\<close> both libraries fail on every buffer, and bytes are decoded one code
  unit each, which is what UTF-8 gives on ASCII bytes. \<open>sampleServices rs\<close> has a vector
  index that answers every search with \<open>rs\<close>.
\<close>

definition sampleParsers :: parsers where
  "sampleParsers = \<lparr>pdfParse = (\<lambda>b. None), extractRawText = (\<lambda>b. None), utf8 = latin1\<rparr>"

definition sampleServices :: "searchResult list \<Rightarrow> services" where
  "sampleServices rs =
     \<lparr>supabaseConfigured = True,
      fileParsers = sampleParsers,
      uuidv4 = (\<lambda>n. js ''chunk-'' @ [48 + n]),
      dateNow = (\<lambda>n. 1000 + int n),
      toISOString = (\<lambda>t. js ''2025-01-01T00:00:00.000Z''),
      embed = (\<lambda>t. replicate 384 0),
      upsertVectors = (\<lambda>docs. None),
      search = (\<lambda>v limit f. Inr rs),
      chat = (\<lambda>ms. Inr \<lparr>llmContent = js ''A summary.'', llmTokensUsed = 40\<rparr>),
      answerWithContext = (\<lambda>c q t. Inr \<lparr>llmContent = js ''An answer.'', llmTokensUsed = 25\<rparr>)\<rparr>"

definition sampleRow :: documentRow where
  "sampleRow =
     \<lparr>rowTitle = Some (js ''Lease''), original_filename = js ''lease.txt'', status = pending,
      raw_text = None, summary = None, processed_at = None\<rparr>"

definition sampleWorld :: world where
  "sampleWorld =
     \<lparr>documents = [js ''doc-1'' \<mapsto> sampleRow], document_chunks = [], queries = [],
      usage_tracking = [], vectorPoints = [], llmRequests = []\<rparr>"

definition sampleOptions :: queryOptions where
  "sampleOptions = \<lparr>optDocumentId = None, topK = None\<rparr>"

text \<open>Two search results: the first is short and scores \<open>1/4\<close>, the second is 250 code
  units long and scores \<open>-1/2\<close>.\<close>

definition sampleResults :: "searchResult list" where
  "sampleResults =
     [\<lparr>resultId = js ''c1'', resultContent = js ''Payment is due within 30 days.'',
       score = 1 / 4,
       resultMetadata = \<lparr>documentId = js ''doc-1'', userId = js ''u1'', vecChunkIndex = 0,
         documentType = None, vecSection = Some (js ''Section 1''), vecPageNumber = None,
         isCorpus = None\<rparr>\<rparr>,
      \<lparr>resultId = js ''c2'', resultContent = replicate 250 97,
       score = - 1 / 2,
       resultMetadata = \<lparr>documentId = js ''doc-2'', userId = js ''u1'', vecChunkIndex = 3,
         documentType = None, vecSection = None, vecPageNumber = None,
         isCorpus = None\<rparr>\<rparr>]"


text \<open>A plain-text file that holds white space only: two spaces around a carriage
  return, a line feed and a tab.\<close>

definition blankBuffer :: buffer where
  "blankBuffer = [32, 13, 10, 9, 32]"

text \<open>The bytes of an ASCII literal.\<close>

definition bytes :: "string \<Rightarrow> buffer" where
  "bytes s = map of_char s"

text \<open>A buffer that is no valid PDF or DOCX file (in \<open>sampleParsers\<close> both libraries
  fail on it) but holds, between parentheses, a readable text of 67 characters; and one
  whose readable text has 10 characters.\<close>

definition leaseBuffer :: buffer where
  "leaseBuffer =
     bytes ''BT (This lease is made between the landlord and the tenant named below.) Tj ET''"

definition shortBuffer :: buffer where
  "shortBuffer = bytes ''BT (Short text) Tj ET''"

text \<open>The text of the scenario, on one line as the specification gives it, and with its
  two sentences on a line each.\<close>

definition scenarioText :: jsstring where
  "scenarioText =
     js ''Section 1: Payment is due within 30 days. Section 2: Termination requires 30 days notice.''"

definition scenarioLines :: jsstring where
  "scenarioLines =
     js ''Section 1: Payment is due within 30 days.\<newline>Section 2: Termination requires 30 days notice.''"

text \<open>
  \<open>wordSentence n k\<close> is a sentence of one word: \<open>n\<close> times the code unit \<open>k\<close> and a
  full stop. \<open>twoLongSentences\<close> is made of two sentences of 1200 code units each, 300
  tokens by the estimate, in the letters z and y, with a space between them.
  \<open>boundaryText\<close> is made of a sentence of 999 code units, a space and a sentence of 1000
  code units: 2000 code units, exactly 500 tokens by the estimate.
\<close>

definition wordSentence :: "nat \<Rightarrow> nat \<Rightarrow> jsstring" where
  "wordSentence n k = replicate n k @ js ''.''"

definition twoLongSentences :: jsstring where
  "twoLongSentences = wordSentence 1199 122 @ js '' '' @ wordSentence 1199 121"

definition boundaryText :: jsstring where
  "boundaryText = wordSentence 998 122 @ js '' '' @ wordSentence 999 121"


text \<open>The same services without the environment variables of the metadata store.\<close>

definition unconfiguredServices :: services where
  "unconfiguredServices = (sampleServices [])\<lparr>supabaseConfigured := False\<rparr>"

text \<open>Parsers of which one library fails on every buffer and the other reads every
  buffer.\<close>

definition pdfFailingParsers :: parsers where
  "pdfFailingParsers =
     \<lparr>pdfParse = (\<lambda>b. None), extractRawText = (\<lambda>b. Some (js ''Text of a document.'')),
      utf8 = latin1\<rparr>"

definition docxFailingParsers :: parsers where
  "docxFailingParsers =
     \<lparr>pdfParse = (\<lambda>b. Some \<lparr>pdfText = js ''Text of a document.'', numpages = 1, info = None\<rparr>),
      extractRawText = (\<lambda>b. None), utf8 = latin1\<rparr>"

section \<open>The query path\<close>

lemma foldl_score_sum:
  "foldl (\<lambda>sum r. sum + score r) a rs = a + sum_list (map score rs)"
  by (induction rs arbitrary: a) simp_all

lemma query_nonempty:
  assumes "vectorSearch sv uid q opts = Inr rs" and "rs \<noteq> []"
    and "fst (query sv w uid q opts) = Inr res"
  shows "confidence res = min (avgScore rs) 1 \<and> citations res = extractCitations rs"
  using assms
  by (auto simp: query_def Let_def split: if_splits sum.splits)

lemma sample_search:
  "vectorSearch (sampleServices rs) (js ''u1'') q sampleOptions = Inr rs"
  by (simp add: vectorSearch_def sampleServices_def sampleOptions_def)

lemma sample_query_returns:
  "rs \<noteq> [] \<Longrightarrow> \<exists>res. fst (query (sampleServices rs) sampleWorld (js ''u1'') q sampleOptions) = Inr res"
  by (simp add: query_def sample_search Let_def)
     (simp add: sampleServices_def sampleOptions_def truthy_def Let_def)

text \<open>
  C5. When the vector search returns a non-empty list of results and \<open>query\<close> returns,
  the confidence of the result is the arithmetic mean of the scores of the results,
  clamped from above at 1: \<open>min (mean) 1\<close>. Nothing clamps it from below.
\<close>

theorem confidence_is_clamped_mean:
  assumes "vectorSearch sv uid q opts = Inr rs" and "rs \<noteq> []"
    and "fst (query sv w uid q opts) = Inr res"
  shows "confidence res = min (sum_list (map score rs) / real (length rs)) 1"
  using query_nonempty [OF assms] by (simp add: avgScore_def foldl_score_sum)

theorem confidence_is_clamped_mean_witness:
  "vectorSearch (sampleServices sampleResults) (js ''u1'') (js ''What are the payment terms?'')
     sampleOptions = Inr sampleResults
   \<and> sampleResults \<noteq> []
   \<and> map_sum id confidence
        (fst (query (sampleServices sampleResults) sampleWorld (js ''u1'')
               (js ''What are the payment terms?'') sampleOptions)) = Inr (- 1 / 8)"
proof -
  let ?q = "js ''What are the payment terms?''"
  have s: "vectorSearch (sampleServices sampleResults) (js ''u1'') ?q sampleOptions = Inr sampleResults"
    by (rule sample_search)
  have n: "sampleResults \<noteq> []"
    by (simp add: sampleResults_def)
  obtain res where r:
    "fst (query (sampleServices sampleResults) sampleWorld (js ''u1'') ?q sampleOptions) = Inr res"
    using sample_query_returns [OF n] by blast
  have "confidence res = - 1 / 8"
    using confidence_is_clamped_mean [OF s n r] by (simp add: sampleResults_def)
  with s n r show ?thesis by simp
qed

text \<open>
  C6. When the vector search returns a non-empty list of results and \<open>query\<close> returns,
  the result has one citation for each search result, in the order of the search
  results. The citation of a result carries its document identifier, its section label
  if any, its score unchanged, and a preview of its content: the content itself when it
  has at most 200 code units, and its first 200 code units followed by three dots
  otherwise.
\<close>

theorem citations_follow_results:
  assumes "vectorSearch sv uid q opts = Inr rs" and "rs \<noteq> []"
    and "fst (query sv w uid q opts) = Inr res"
  shows "length (citations res) = length rs
    \<and> (\<forall>i < length rs.
          source (citations res ! i) = documentId (resultMetadata (rs ! i))
        \<and> citedSection (citations res ! i) = vecSection (resultMetadata (rs ! i))
        \<and> relevanceScore (citations res ! i) = score (rs ! i)
        \<and> citedContent (citations res ! i) =
            (if length (resultContent (rs ! i)) \<le> 200 then resultContent (rs ! i)
             else take 200 (resultContent (rs ! i)) @ js ''...''))"
  using query_nonempty [OF assms] by (simp add: extractCitations_def slice_def)

theorem citations_follow_results_witness:
  "vectorSearch (sampleServices sampleResults) (js ''u1'') (js ''What are the payment terms?'')
     sampleOptions = Inr sampleResults
   \<and> sampleResults \<noteq> []
   \<and> map_sum id (map (\<lambda>c. (source c, citedSection c, relevanceScore c, citedContent c)) \<circ> citations)
        (fst (query (sampleServices sampleResults) sampleWorld (js ''u1'')
               (js ''What are the payment terms?'') sampleOptions))
       = Inr [(js ''doc-1'', Some (js ''Section 1''), 1 / 4, js ''Payment is due within 30 days.''),
              (js ''doc-2'', None, - 1 / 2, replicate 200 97 @ js ''...'')]"
proof -
  let ?q = "js ''What are the payment terms?''"
  have s: "vectorSearch (sampleServices sampleResults) (js ''u1'') ?q sampleOptions = Inr sampleResults"
    by (rule sample_search)
  have n: "sampleResults \<noteq> []"
    by (simp add: sampleResults_def)
  obtain res where r:
    "fst (query (sampleServices sampleResults) sampleWorld (js ''u1'') ?q sampleOptions) = Inr res"
    using sample_query_returns [OF n] by blast
  have len: "length sampleResults = 2"
    by (simp add: sampleResults_def)
  from citations_follow_results [OF s n r]
  have c: "length (citations res) = 2"
    and c0: "source (citations res ! 0) = js ''doc-1''"
            "citedSection (citations res ! 0) = Some (js ''Section 1'')"
            "relevanceScore (citations res ! 0) = 1 / 4"
            "citedContent (citations res ! 0) = js ''Payment is due within 30 days.''"
    and c1: "source (citations res ! 1) = js ''doc-2''"
            "citedSection (citations res ! 1) = None"
            "relevanceScore (citations res ! 1) = - 1 / 2"
            "citedContent (citations res ! 1) = replicate 200 97 @ js ''...''"
    by (simp_all add: sampleResults_def js_def)
  from c obtain a b where ab: "citations res = [a, b]"
    by (cases "citations res"; simp) (metis length_0_conv length_Suc_conv)
  with c0 c1 have "map (\<lambda>c. (source c, citedSection c, relevanceScore c, citedContent c)) (citations res)
       = [(js ''doc-1'', Some (js ''Section 1''), 1 / 4, js ''Payment is due within 30 days.''),
          (js ''doc-2'', None, - 1 / 2, replicate 200 97 @ js ''...'')]"
    by simp
  with s n r show ?thesis by simp
qed

text \<open>
  C7. When the vector search returns no result, \<open>query\<close> returns a result and does not
  throw: the answer is the fixed text, which says that no relevant information was
  found and ends with the disclaimer, the confidence is 0 and there is no citation.
\<close>

theorem no_results_fixed_answer:
  assumes "vectorSearch sv uid q opts = Inr []"
  shows "fst (query sv w uid q opts) =
           Inr \<lparr>answer = noResultsAnswer, citations = [], confidence = 0, tokensUsed = 0,
                processingTimeMs = dateNow sv 1 - dateNow sv 0\<rparr>
    \<and> sublist (js ''I couldn't find relevant information'') noResultsAnswer
    \<and> suffix (js ''This is for informational purposes only, not legal advice.'') noResultsAnswer"
proof -
  have "fst (query sv w uid q opts) =
           Inr \<lparr>answer = noResultsAnswer, citations = [], confidence = 0, tokensUsed = 0,
                processingTimeMs = dateNow sv 1 - dateNow sv 0\<rparr>"
    using assms by (simp add: query_def)
  moreover have "prefix (js ''I couldn't find relevant information'') noResultsAnswer"
    by (simp add: noResultsAnswer_def js_def)
  moreover have "suffix (js ''This is for informational purposes only, not legal advice.'') noResultsAnswer"
    by (simp add: noResultsAnswer_def js_def suffix_def)
  ultimately show ?thesis by (simp add: prefix_imp_sublist)
qed

theorem no_results_fixed_answer_witness:
  "vectorSearch (sampleServices []) (js ''u1'') (js ''What are the payment terms?'') sampleOptions = Inr []
   \<and> map_sum id (\<lambda>r. (answer r, citations r, confidence r))
         (fst (query (sampleServices []) sampleWorld (js ''u1'') (js ''What are the payment terms?'')
                sampleOptions)) = Inr (noResultsAnswer, [], 0)"
proof -
  have s: "vectorSearch (sampleServices []) (js ''u1'') (js ''What are the payment terms?'')
             sampleOptions = Inr []"
    by (rule sample_search)
  show ?thesis
    using no_results_fixed_answer [OF s, of sampleWorld] s by simp
qed

text \<open>
  C10. When the vector search returns no result, \<open>query\<close> sends no request to the
  language-model service and writes nothing: the state after the call is the state
  before it, so that no query record and no usage event is added, and the result
  reports 0 tokens used.
\<close>

theorem no_results_no_effect:
  assumes "vectorSearch sv uid q opts = Inr []"
  shows "snd (query sv w uid q opts) = w
    \<and> llmRequests (snd (query sv w uid q opts)) = llmRequests w
    \<and> queries (snd (query sv w uid q opts)) = queries w
    \<and> usage_tracking (snd (query sv w uid q opts)) = usage_tracking w
    \<and> map_sum id tokensUsed (fst (query sv w uid q opts)) = Inr 0"
  using assms by (simp add: query_def)

theorem no_results_no_effect_witness:
  "vectorSearch (sampleServices []) (js ''u1'') (js ''What are the payment terms?'') sampleOptions = Inr []
   \<and> snd (query (sampleServices []) sampleWorld (js ''u1'') (js ''What are the payment terms?'')
           sampleOptions) = sampleWorld
   \<and> map_sum id tokensUsed
         (fst (query (sampleServices []) sampleWorld (js ''u1'') (js ''What are the payment terms?'')
                sampleOptions)) = Inr 0"
proof -
  have s: "vectorSearch (sampleServices []) (js ''u1'') (js ''What are the payment terms?'')
             sampleOptions = Inr []"
    by (rule sample_search)
  show ?thesis
    using no_results_no_effect [OF s, of sampleWorld] s by simp
qed

section \<open>Chunk indices\<close>

text \<open>The indices of a list of chunks are in order when the chunk at position \<open>i\<close> has
  index \<open>i\<close>. Both loops of the chunker keep this, since a chunk is pushed with the
  number of chunks pushed before it.\<close>

lemma indices_snoc:
  "map chunkIndex cs = [0..<length cs] \<Longrightarrow>
   map chunkIndex (cs @ [c\<lparr>chunkIndex := length cs\<rparr>]) = [0..<length (cs @ [c])]"
  by simp

lemma windowStep_indices:
  assumes "map chunkIndex (fst st) = [0..<length (fst st)]"
  shows "map chunkIndex (fst (windowStep uuid st s)) = [0..<length (fst (windowStep uuid st s))]"
  using assms by (cases st) (simp add: windowStep_def Let_def)

lemma window_loop_indices:
  "map chunkIndex (fst st) = [0..<length (fst st)] \<Longrightarrow>
   map chunkIndex (fst (foldl (windowStep uuid) st ss))
     = [0..<length (fst (foldl (windowStep uuid) st ss))]"
  by (induction ss arbitrary: st) (simp_all add: windowStep_indices)

lemma slidingWindowChunk_indices:
  "map chunkIndex (slidingWindowChunk uuid t) = [0..<length (slidingWindowChunk uuid t)]"
proof -
  obtain cs cur a b where f:
    "foldl (windowStep uuid) ([], [], 0, 0) (splitIntoSentences t) = (cs, cur, a, b)"
    by (metis prod_cases4)
  have "map chunkIndex (fst (foldl (windowStep uuid) ([], [], 0, 0) (splitIntoSentences t)))
      = [0..<length (fst (foldl (windowStep uuid) ([], [], 0, 0) (splitIntoSentences t)))]"
    by (rule window_loop_indices) simp
  with f have "map chunkIndex cs = [0..<length cs]" by simp
  with f show ?thesis by (simp add: slidingWindowChunk_def)
qed

lemma pushSubChunks_indices:
  "map chunkIndex cs = [0..<length cs] \<Longrightarrow>
   map chunkIndex (pushSubChunks cs subs) = [0..<length (pushSubChunks cs subs)]"
  unfolding pushSubChunks_def
  by (induction subs arbitrary: cs) simp_all

lemma sectionStep_indices:
  "map chunkIndex cs = [0..<length cs] \<Longrightarrow>
   map chunkIndex (sectionStep uuid t cs sec) = [0..<length (sectionStep uuid t cs sec)]"
  by (simp add: sectionStep_def Let_def pushSubChunks_indices)

lemma section_loop_indices:
  "map chunkIndex cs = [0..<length cs] \<Longrightarrow>
   map chunkIndex (foldl (sectionStep uuid t) cs secs)
     = [0..<length (foldl (sectionStep uuid t) cs secs)]"
  by (induction secs arbitrary: cs) (simp_all add: sectionStep_indices)

text \<open>
  C9. For every text and every sequence of identifiers, the chunks that \<open>chunkDocument\<close>
  returns are numbered 0, 1, 2, ... in the order of the list: the chunk at position \<open>i\<close>
  has \<open>chunkIndex\<close> \<open>i\<close>. This holds on the section path and on the sliding-window path,
  and for \<open>slidingWindowChunk\<close> on its own.
\<close>

theorem chunk_indices_contiguous:
  "map chunkIndex (chunkDocument uuid t) = [0..<length (chunkDocument uuid t)]
   \<and> map chunkIndex (slidingWindowChunk uuid t) = [0..<length (slidingWindowChunk uuid t)]"
  by (simp add: chunkDocument_def Let_def slidingWindowChunk_indices section_loop_indices)

section \<open>Empty and blank documents\<close>

lemma blank_unit:
  assumes "isWhiteSpace c"
  shows "c \<noteq> 108" "c \<noteq> 124" "c \<noteq> 40" "c \<noteq> 46" "\<not> isTerminalMark c" "\<not> isDigit c"
    "\<not> isUpper c" "\<not> isLower c" "\<not> isRoman c" "canon c = c"
  using assms
  by (auto simp: isWhiteSpace_def isTerminalMark_def isDigit_def isUpper_def isLower_def
      isRoman_def canon_def js_def)

lemma trim_blank:
  assumes "list_all isWhiteSpace s"
  shows "trim s = []"
proof -
  have d: "dropWhile isWhiteSpace s = []"
    using assms by (induction s) simp_all
  show ?thesis unfolding trim_def d by simp
qed

lemma fixLoneL_blank: "list_all isWhiteSpace s \<Longrightarrow> fixLoneL b s = s"
  by (induction s arbitrary: b) (auto simp: blank_unit)

lemma collapseSpaces_blank:
  "list_all isWhiteSpace s \<Longrightarrow> collapseSpaces True s = []"
  by (induction s) auto

lemma collapseSpaces_blank_start:
  "list_all isWhiteSpace s \<Longrightarrow> collapseSpaces False s = (if s = [] then [] else [32])"
  by (cases s) (auto simp: collapseSpaces_blank)

lemma normalizeText_blank: "list_all isWhiteSpace s \<Longrightarrow> normalizeText s = []"
  by (simp add: normalizeText_def fixLoneL_blank collapseSpaces_blank_start replaceUnit_def
      trim_def isWhiteSpace_def)

text \<open>No heading pattern matches at the beginning of a blank string.\<close>

lemma keywordPattern_blank:
  assumes "list_all isWhiteSpace s" and "kw \<noteq> []" and "isUpper (hd kw) \<or> isLower (hd kw)"
  shows "keywordPattern kw number s = None"
proof (cases s)
  case Nil
  with assms show ?thesis by (simp add: keywordPattern_def stripKeyword_def)
next
  case (Cons c cs)
  with assms have c: "isWhiteSpace c" by simp
  obtain k ks where kw: "kw = k # ks" using assms(2) by (cases kw) auto
  have "canon c \<noteq> canon k"
    using c assms(3) kw
    by (auto simp: canon_def isWhiteSpace_def isUpper_def isLower_def)
  with Cons kw show ?thesis
    by (simp add: keywordPattern_def stripKeyword_def)
qed

lemma heading_pattern_blank:
  assumes "p \<in> set SECTION_PATTERNS" and "list_all isWhiteSpace s"
  shows "p s = None"
proof -
  have k: "\<And>w number. w \<in> {js ''Section'', js ''Article'', js ''Clause'', js ''Rule'', js ''Order''}
            \<Longrightarrow> keywordPattern w number s = None"
    by (rule keywordPattern_blank [OF assms(2)]) (auto simp: js_def isUpper_def)
  have n: "numberedPattern s = None"
    using assms(2) by (cases s) (auto simp: numberedPattern_def blank_unit)
  have r: "romanPattern s = None"
    using assms(2) by (cases s) (auto simp: romanPattern_def blank_unit)
  have i: "itemPattern s = None"
    using assms(2) by (cases s) (auto simp: itemPattern_def blank_unit)
  from assms(1) k n r i show ?thesis
    by (auto simp: SECTION_PATTERNS_def)
qed

lemma firstSome_none: "(\<And>x. x \<in> set xs \<Longrightarrow> f x = None) \<Longrightarrow> firstSome f xs = None"
  by (induction xs) simp_all

lemma lineStarts_blank:
  "list_all isWhiteSpace s \<Longrightarrow> x \<in> set (lineStarts s) \<Longrightarrow> list_all isWhiteSpace x"
  by (induction s) (auto split: if_splits)

lemma firstHeading_blank:
  assumes "list_all isWhiteSpace line"
  shows "firstHeading line = None"
  unfolding firstHeading_def
proof (rule firstSome_none)
  fix p assume p: "p \<in> set SECTION_PATTERNS"
  show "matchLine line p = None"
    unfolding matchLine_def
    by (rule firstSome_none) (use assms p in \<open>auto dest: lineStarts_blank intro: heading_pattern_blank\<close>)
qed

lemma splitNewline_blank:
  "list_all isWhiteSpace cur \<Longrightarrow> list_all isWhiteSpace t \<Longrightarrow>
   l \<in> set (splitNewline cur t) \<Longrightarrow> list_all isWhiteSpace l"
  by (induction cur t rule: splitNewline.induct) (auto split: if_splits)

lemma scanLines_no_heading:
  "(\<And>l. l \<in> set ls \<Longrightarrow> firstHeading l = None) \<Longrightarrow> scanLines n ls pos secs = secs"
  by (induction ls arbitrary: pos) simp_all

lemma identifySections_blank:
  "list_all isWhiteSpace t \<Longrightarrow> identifySections t = []"
  unfolding identifySections_def
proof (rule scanLines_no_heading)
  fix l
  assume "list_all isWhiteSpace t" and "l \<in> set (splitNewline [] t)"
  then have "list_all isWhiteSpace l"
    using splitNewline_blank [of "[]" t l] by simp
  then show "firstHeading l = None"
    by (rule firstHeading_blank)
qed

lemma markBoundaries_blank:
  "list_all isWhiteSpace t \<Longrightarrow> list_all isWhiteSpace (markBoundaries b t)"
  by (induction t arbitrary: b) (auto simp: blank_unit)

lemma keepCapitals_same: "keepCapitals s = s"
  by (induction s rule: keepCapitals.induct) (simp_all add: js_def)

lemma splitBars_no_bar: "124 \<notin> set t \<Longrightarrow> splitBars cur t = [cur @ t]"
  by (induction cur t rule: splitBars.induct) auto

lemma splitIntoSentences_blank:
  assumes "list_all isWhiteSpace t"
  shows "splitIntoSentences t = []"
proof -
  have m: "list_all isWhiteSpace (markBoundaries False t)"
    using assms by (rule markBoundaries_blank)
  then have "124 \<notin> set (markBoundaries False t)"
    by (auto simp: list_all_iff dest: blank_unit(2))
  then have "splitBars [] (keepCapitals (markBoundaries False t)) = [markBoundaries False t]"
    by (simp add: keepCapitals_same splitBars_no_bar)
  with m show ?thesis
    by (simp add: splitIntoSentences_def trim_blank)
qed

lemma chunkDocument_blank:
  "list_all isWhiteSpace t \<Longrightarrow> chunkDocument uuid t = []"
  by (simp add: chunkDocument_def identifySections_blank slidingWindowChunk_def
      splitIntoSentences_blank trim_def)

lemma updateDocument_twice:
  "updateDocument d g (updateDocument d f w) = updateDocument d (g \<circ> f) w"
  by (cases "documents w d") (simp_all add: updateDocument_def)

lemma ingestSteps_blank:
  assumes "extractText (fileParsers sv) b fileType filename = Inr doc"
    and "list_all isWhiteSpace (docText doc)"
  shows "ingestSteps sv w t0 docId uid b fileType filename
           = (Inl (Error (js ''No text could be extracted from document'')), w)"
  using assms
  by (simp add: ingestSteps_def normalizeText_blank chunkDocument_blank)

text \<open>
  C3, as the code has it. Take a document whose extracted text is empty or consists of
  white space only. Chunking the text gives no chunk, before and after normalisation.
  When the client of the metadata store can be created, \<open>ingestDocument\<close> returns a
  failure result (no chunk created, status failed, with the message that no text could
  be extracted), and the only change to the state is that the row of the document, if
  there is one, has status \<open>failed\<close>: it is not \<open>completed\<close>, and no chunk record,
  vector, summary request or usage event is written. When the client cannot be
  created, \<open>ingestDocument\<close> throws before its \<open>try\<close> and the state is unchanged.
\<close>

theorem blank_document_fails:
  assumes "extractText (fileParsers sv) b fileType filename = Inr doc"
    and "list_all isWhiteSpace (docText doc)"
  shows "chunkDocument (uuidv4 sv) (docText doc) = []
    \<and> chunkDocument (uuidv4 sv) (normalizeText (docText doc)) = []
    \<and> (supabaseConfigured sv \<longrightarrow>
          ingestDocument sv w docId uid b fileType filename =
            (Inr \<lparr>resDocumentId = docId, chunksCreated = 0, resStatus = IngestFailed,
                  resError = Some (js ''No text could be extracted from document'')\<rparr>,
             updateDocument docId (\<lambda>row. row\<lparr>status := failed\<rparr>) w)
        \<and> (\<forall>row. documents w docId = Some row \<longrightarrow>
              documents (snd (ingestDocument sv w docId uid b fileType filename)) docId
                = Some (row\<lparr>status := failed\<rparr>)
              \<and> status (row\<lparr>status := failed\<rparr>) \<noteq> completed))
    \<and> (\<not> supabaseConfigured sv \<longrightarrow>
          ingestDocument sv w docId uid b fileType filename = (Inl missingSupabase, w))"
proof -
  have c1: "chunkDocument (uuidv4 sv) (docText doc) = []"
    using assms(2) by (rule chunkDocument_blank)
  have c2: "chunkDocument (uuidv4 sv) (normalizeText (docText doc)) = []"
    using assms(2) by (simp add: normalizeText_blank chunkDocument_blank)
  have f: "(\<lambda>row. row\<lparr>status := failed\<rparr>) \<circ> (\<lambda>row. row\<lparr>status := processing\<rparr>)
             = (\<lambda>row::documentRow. row\<lparr>status := failed\<rparr>)"
    by (rule ext) simp
  have i: "ingestDocument sv w docId uid b fileType filename =
        (Inr \<lparr>resDocumentId = docId, chunksCreated = 0, resStatus = IngestFailed,
              resError = Some (js ''No text could be extracted from document'')\<rparr>,
         updateDocument docId (\<lambda>row. row\<lparr>status := failed\<rparr>) w)"
    if "supabaseConfigured sv"
    using that
    by (simp add: ingestDocument_def ingestSteps_blank [OF assms] updateDocument_twice f)
  have r: "\<forall>row. documents w docId = Some row \<longrightarrow>
          documents (snd (ingestDocument sv w docId uid b fileType filename)) docId
            = Some (row\<lparr>status := failed\<rparr>)
          \<and> status (row\<lparr>status := failed\<rparr>) \<noteq> completed"
    if "supabaseConfigured sv"
    by (simp add: i [OF that] updateDocument_def)
  have u: "ingestDocument sv w docId uid b fileType filename = (Inl missingSupabase, w)"
    if "\<not> supabaseConfigured sv"
    using that by (simp add: ingestDocument_def)
  from c1 c2 i r u show ?thesis by blast
qed

lemma blank_file_extracted:
  "fileParsers sv = sampleParsers \<Longrightarrow>
   extractText (fileParsers sv) blankBuffer (js ''txt'') (js ''blank.txt'') =
     Inr \<lparr>docText = [32, 13, 10, 9, 32], pages = 1,
          docInfo = \<lparr>title = Some (js ''blank.txt''), author = None, creationDate = None\<rparr>\<rparr>"
  by (simp add: extractText_def sampleParsers_def toLowerCase_def js_def isUpper_def latin1_def
      blankBuffer_def)

theorem blank_document_fails_witness:
  "supabaseConfigured (sampleServices [])
   \<and> map_sum id docText
       (extractText (fileParsers (sampleServices [])) blankBuffer (js ''txt'') (js ''blank.txt''))
       = Inr [32, 13, 10, 9, 32]
   \<and> list_all isWhiteSpace [32, 13, 10, 9, 32]
   \<and> documents sampleWorld (js ''doc-1'') = Some sampleRow
   \<and> chunkDocument (uuidv4 (sampleServices [])) [32, 13, 10, 9, 32] = []
   \<and> ingestDocument (sampleServices []) sampleWorld (js ''doc-1'') (js ''u1'') blankBuffer
        (js ''txt'') (js ''blank.txt'') =
        (Inr \<lparr>resDocumentId = js ''doc-1'', chunksCreated = 0, resStatus = IngestFailed,
              resError = Some (js ''No text could be extracted from document'')\<rparr>,
         sampleWorld\<lparr>documents := [js ''doc-1'' \<mapsto> sampleRow\<lparr>status := failed\<rparr>]\<rparr>)
   \<and> \<not> supabaseConfigured unconfiguredServices
   \<and> ingestDocument unconfiguredServices sampleWorld (js ''doc-1'') (js ''u1'') blankBuffer
        (js ''txt'') (js ''blank.txt'') = (Inl missingSupabase, sampleWorld)"
proof -
  let ?sv = "sampleServices []"
  let ?doc = "\<lparr>docText = [32, 13, 10, 9, 32], pages = 1,
               docInfo = \<lparr>title = Some (js ''blank.txt''), author = None, creationDate = None\<rparr>\<rparr>"
  have a: "supabaseConfigured ?sv" "\<not> supabaseConfigured unconfiguredServices"
    by (simp_all add: sampleServices_def unconfiguredServices_def)
  have e: "extractText (fileParsers ?sv) blankBuffer (js ''txt'') (js ''blank.txt'') = Inr ?doc"
    by (rule blank_file_extracted) (simp add: sampleServices_def)
  have e': "extractText (fileParsers unconfiguredServices) blankBuffer (js ''txt'') (js ''blank.txt'')
              = Inr ?doc"
    by (rule blank_file_extracted) (simp add: sampleServices_def unconfiguredServices_def)
  have b: "list_all isWhiteSpace (docText ?doc)"
    by (simp add: isWhiteSpace_def)
  have r: "documents sampleWorld (js ''doc-1'') = Some sampleRow"
    by (simp add: sampleWorld_def)
  have u: "updateDocument (js ''doc-1'') (\<lambda>row. row\<lparr>status := failed\<rparr>) sampleWorld
        = sampleWorld\<lparr>documents := [js ''doc-1'' \<mapsto> sampleRow\<lparr>status := failed\<rparr>]\<rparr>"
    by (simp add: updateDocument_def r) (simp add: sampleWorld_def)
  from blank_document_fails [OF e b, of sampleWorld "js ''doc-1''" "js ''u1''"]
    blank_document_fails [OF e' b, of sampleWorld "js ''doc-1''" "js ''u1''"] a e b r u
  show ?thesis by simp
qed

text \<open>
  C3, as the claim has it, fails when the environment of the metadata store is not
  set: the extracted text of the file is blank, \<open>ingestDocument\<close> throws instead of
  returning a failure result, and the row of the document keeps its status \<open>pending\<close>.
\<close>

theorem blank_document_unconfigured:
  "map_sum id docText
     (extractText (fileParsers unconfiguredServices) blankBuffer (js ''txt'') (js ''blank.txt''))
     = Inr [32, 13, 10, 9, 32]
   \<and> list_all isWhiteSpace [32, 13, 10, 9, 32]
   \<and> ingestDocument unconfiguredServices sampleWorld (js ''doc-1'') (js ''u1'') blankBuffer
        (js ''txt'') (js ''blank.txt'') = (Inl missingSupabase, sampleWorld)
   \<and> map_option status (documents sampleWorld (js ''doc-1'')) = Some pending"
proof -
  have "extractText (fileParsers unconfiguredServices) blankBuffer (js ''txt'') (js ''blank.txt'')
          = Inr \<lparr>docText = [32, 13, 10, 9, 32], pages = 1,
               docInfo = \<lparr>title = Some (js ''blank.txt''), author = None, creationDate = None\<rparr>\<rparr>"
    by (rule blank_file_extracted) (simp add: sampleServices_def unconfiguredServices_def)
  moreover have "ingestDocument unconfiguredServices sampleWorld (js ''doc-1'') (js ''u1'')
       blankBuffer (js ''txt'') (js ''blank.txt'') = (Inl missingSupabase, sampleWorld)"
    by (simp add: ingestDocument_def unconfiguredServices_def)
  ultimately show ?thesis
    by (simp add: isWhiteSpace_def sampleWorld_def sampleRow_def)
qed

section \<open>The two-section scenario\<close>

lemmas heading_defs =
  identifySections_def firstHeading_def matchLine_def SECTION_PATTERNS_def keywordPattern_def
  stripKeyword_def spaces1_def digits1_def sectionNumber_def clauseNumberGroup_def
  orderNumber_def numberedPattern_def romanPattern_def itemPattern_def closePrevious_def
  canon_def isRoman_def isIVX_def isLineTerminator_def isWhiteSpace_def isDigit_def isUpper_def
  isLower_def trim_def slice_def js_def Let_def

lemmas chunk_defs =
  chunkDocument_def sectionStep_def estimateTokens_def maxChunkSize_def

lemma scenarioText_sections:
  "identifySections scenarioText =
     [\<lparr>secStart = 0, secEnd = 89, secTitle = Some scenarioText, secClauseNumber = Some (js ''1'')\<rparr>]"
  by (simp add: scenarioText_def heading_defs)

lemma scenarioLines_sections:
  "identifySections scenarioLines =
     [\<lparr>secStart = 0, secEnd = 42,
       secTitle = Some (js ''Section 1: Payment is due within 30 days.''),
       secClauseNumber = Some (js ''1'')\<rparr>,
      \<lparr>secStart = 42, secEnd = 89,
       secTitle = Some (js ''Section 2: Termination requires 30 days notice.''),
       secClauseNumber = Some (js ''2'')\<rparr>]"
  by (simp add: scenarioLines_def heading_defs)

lemma scenarioText_chunks:
  "map content (chunkDocument uuid scenarioText) = [scenarioText]"
  by (simp add: chunk_defs scenarioText_sections)
     (simp add: scenarioText_def slice_def trim_def js_def isWhiteSpace_def Let_def)

lemma scenarioLines_chunks:
  "map content (chunkDocument uuid scenarioLines) =
     [js ''Section 1: Payment is due within 30 days.'',
      js ''Section 2: Termination requires 30 days notice.'']"
  by (simp add: chunk_defs scenarioLines_sections)
     (simp add: scenarioLines_def slice_def trim_def js_def isWhiteSpace_def Let_def)

text \<open>
  C1, as the code has it. Headings are looked for at the beginning of each line. The
  text of the scenario is one line, so \<open>chunkDocument\<close> finds one section in it, with
  clause number 1 and an estimate of 23 tokens, under the limit, and returns one chunk,
  the whole text. With the second sentence on a line of its own there are two sections,
  with clause numbers 1 and 2 and estimates of 11 and 12 tokens, and two chunks.
\<close>

theorem scenario_sections:
  "map secClauseNumber (identifySections scenarioText) = [Some (js ''1'')]
   \<and> map (\<lambda>s. estimateTokens (slice scenarioText (secStart s) (secEnd s)))
        (identifySections scenarioText) = [23]
   \<and> 23 \<le> maxChunkSize
   \<and> map content (chunkDocument uuid scenarioText) = [scenarioText]
   \<and> map secClauseNumber (identifySections scenarioLines) = [Some (js ''1''), Some (js ''2'')]
   \<and> map (\<lambda>s. estimateTokens (slice scenarioLines (secStart s) (secEnd s)))
        (identifySections scenarioLines) = [11, 12]
   \<and> map content (chunkDocument uuid scenarioLines) =
        [js ''Section 1: Payment is due within 30 days.'',
         js ''Section 2: Termination requires 30 days notice.'']"
proof -
  have "estimateTokens (slice scenarioText 0 89) = 23"
    by (simp add: estimateTokens_def slice_def scenarioText_def js_def)
  moreover have "estimateTokens (slice scenarioLines 0 42) = 11"
    "estimateTokens (slice scenarioLines 42 89) = 12"
    by (simp_all add: estimateTokens_def slice_def scenarioLines_def js_def)
  ultimately show ?thesis
    by (simp add: scenarioText_sections scenarioLines_sections scenarioText_chunks
        scenarioLines_chunks maxChunkSize_def)
qed

text \<open>
  C1, as the claim has it, fails: on the text of the scenario there is one section and
  one chunk, not two.
\<close>

theorem scenario_one_section:
  "length (identifySections scenarioText) = 1
   \<and> length (chunkDocument (uuidv4 (sampleServices [])) scenarioText) = 1"
  using scenarioText_chunks [of "uuidv4 (sampleServices [])", THEN arg_cong, of length]
  by (simp add: scenarioText_sections)

section \<open>Extraction and its fallback\<close>

lemma latin1_bytes: "latin1 (bytes s) = js s"
proof -
  have "unat (of_char c :: 8 word) = (of_char c :: nat)" for c
  proof -
    have "(of_char c :: 8 word) = of_nat (of_char c)"
      by (simp add: of_nat_of_char)
    then show ?thesis
      by (simp add: unat_of_nat)
  qed
  then show ?thesis
    by (simp add: latin1_def bytes_def js_def)
qed

lemma lease_recovered:
  "extractTextFromPDFBuffer leaseBuffer
     = js ''This lease is made between the landlord and the tenant named below.''"
  by (simp add: extractTextFromPDFBuffer_def leaseBuffer_def latin1_bytes Let_def)
     (simp add: js_def isReadable_def isWhiteSpace_def trim_def)

lemma short_recovered: "extractTextFromPDFBuffer shortBuffer = js ''Short text''"
  by (simp add: extractTextFromPDFBuffer_def shortBuffer_def latin1_bytes Let_def)
     (simp add: js_def isReadable_def isWhiteSpace_def trim_def)

text \<open>
  C4, as the code has it. When the PDF parser fails on a buffer declared as PDF,
  \<open>extractText\<close> runs the fallback scan of the buffer: it returns the recovered text (one
  page, no metadata) when that text has more than 50 code units, and fails otherwise.
  When the DOCX parser fails on a buffer declared as DOCX, \<open>extractText\<close> fails at once:
  there is no fallback on that path. Each half depends on its own parser only.
\<close>

theorem pdf_fallback_docx_none:
  "(pdfParse ps b = None \<and> toLowerCase fileType \<in> {js ''pdf'', js ''application/pdf''} \<longrightarrow>
      extractText ps b fileType filename =
        (if length (extractTextFromPDFBuffer b) > 50
         then Inr \<lparr>docText = extractTextFromPDFBuffer b, pages = 1,
                   docInfo = \<lparr>title = None, author = None, creationDate = None\<rparr>\<rparr>
         else Inl (Error (js ''Failed to extract text from PDF. Try uploading a TXT or DOCX file instead.''))))
   \<and> (extractRawText ps b = None
        \<and> toLowerCase fileType \<in>
             {js ''docx'',
              js ''application/vnd.openxmlformats-officedocument.wordprocessingml.document''} \<longrightarrow>
      extractText ps b fileType filename = Inl (Error (js ''Failed to extract text from DOCX'')))"
proof -
  have d: "js ''docx'' \<noteq> js ''pdf''" "js ''docx'' \<noteq> js ''application/pdf''"
    "js ''application/vnd.openxmlformats-officedocument.wordprocessingml.document'' \<noteq> js ''pdf''"
    "js ''application/vnd.openxmlformats-officedocument.wordprocessingml.document''
       \<noteq> js ''application/pdf''"
    by (simp_all add: js_def)
  show ?thesis
    using d
    by (auto simp: extractText_def extractFromPDF_def extractFromDOCX_def Let_def)
qed

theorem pdf_fallback_docx_none_witness:
  "pdfParse pdfFailingParsers leaseBuffer = None
   \<and> extractRawText pdfFailingParsers leaseBuffer \<noteq> None
   \<and> toLowerCase (js ''PDF'') \<in> {js ''pdf'', js ''application/pdf''}
   \<and> extractText pdfFailingParsers leaseBuffer (js ''PDF'') (js ''lease.pdf'') =
       Inr \<lparr>docText = js ''This lease is made between the landlord and the tenant named below.'',
            pages = 1, docInfo = \<lparr>title = None, author = None, creationDate = None\<rparr>\<rparr>
   \<and> extractText pdfFailingParsers shortBuffer (js ''PDF'') (js ''short.pdf'') =
       Inl (Error (js ''Failed to extract text from PDF. Try uploading a TXT or DOCX file instead.''))
   \<and> extractRawText docxFailingParsers leaseBuffer = None
   \<and> pdfParse docxFailingParsers leaseBuffer \<noteq> None
   \<and> toLowerCase (js ''docx'') \<in>
        {js ''docx'', js ''application/vnd.openxmlformats-officedocument.wordprocessingml.document''}
   \<and> extractText docxFailingParsers leaseBuffer (js ''docx'') (js ''lease.docx'') =
       Inl (Error (js ''Failed to extract text from DOCX''))"
proof -
  have p: "pdfParse pdfFailingParsers b = None" "extractRawText pdfFailingParsers b \<noteq> None"
    "extractRawText docxFailingParsers b = None" "pdfParse docxFailingParsers b \<noteq> None" for b
    by (simp_all add: pdfFailingParsers_def docxFailingParsers_def)
  have lp: "toLowerCase (js ''PDF'') = js ''pdf''"
    and ld: "toLowerCase (js ''docx'') = js ''docx''"
    by (simp_all add: toLowerCase_def js_def isUpper_def)
  have n: "length (js ''This lease is made between the landlord and the tenant named below.'') > 50"
    "\<not> length (js ''Short text'') > 50"
    by (simp_all add: js_def)
  have a: "extractText pdfFailingParsers leaseBuffer (js ''PDF'') (js ''lease.pdf'') =
       Inr \<lparr>docText = js ''This lease is made between the landlord and the tenant named below.'',
            pages = 1, docInfo = \<lparr>title = None, author = None, creationDate = None\<rparr>\<rparr>"
    using pdf_fallback_docx_none [of pdfFailingParsers leaseBuffer "js ''PDF''" "js ''lease.pdf''"] n
    by (simp add: p lp lease_recovered)
  have b: "extractText pdfFailingParsers shortBuffer (js ''PDF'') (js ''short.pdf'') =
       Inl (Error (js ''Failed to extract text from PDF. Try uploading a TXT or DOCX file instead.''))"
    using pdf_fallback_docx_none [of pdfFailingParsers shortBuffer "js ''PDF''" "js ''short.pdf''"] n
    by (simp add: p lp short_recovered)
  have c: "extractText docxFailingParsers leaseBuffer (js ''docx'') (js ''lease.docx'') =
       Inl (Error (js ''Failed to extract text from DOCX''))"
    using pdf_fallback_docx_none [of docxFailingParsers leaseBuffer "js ''docx''" "js ''lease.docx''"]
    by (simp add: p ld)
  from p a b c show ?thesis
    by (simp add: lp ld)
qed

text \<open>
  C4, as the claim has it, fails on the DOCX path: the DOCX parser fails on
  \<open>leaseBuffer\<close>, the scan of the buffer would recover 67 code units of text, more than
  50, and \<open>extractText\<close> fails all the same.
\<close>

theorem docx_has_no_fallback:
  "extractRawText sampleParsers leaseBuffer = None
   \<and> length (extractTextFromPDFBuffer leaseBuffer) = 67
   \<and> extractText sampleParsers leaseBuffer (js ''docx'') (js ''lease.docx'')
       = Inl (Error (js ''Failed to extract text from DOCX''))"
  by (simp add: lease_recovered)
     (simp add: extractText_def extractFromDOCX_def sampleParsers_def toLowerCase_def js_def
        isUpper_def)

section \<open>The size limit and the overlap\<close>

text \<open>How the scanning functions pass over a run of code units that they do not act on.\<close>

lemma splitNewline_one_line: "10 \<notin> set t \<Longrightarrow> splitNewline cur t = [cur @ t]"
  by (induction t arbitrary: cur) simp_all

lemma lineStarts_one_line: "\<forall>c \<in> set t. \<not> isLineTerminator c \<Longrightarrow> lineStarts t = []"
  by (induction t) simp_all

lemma markBoundaries_run:
  "\<forall>c \<in> set u. \<not> isTerminalMark c \<and> \<not> isWhiteSpace c \<Longrightarrow> u \<noteq> [] \<Longrightarrow>
   markBoundaries b (u @ r) = u @ markBoundaries False r"
proof (induction u arbitrary: b)
  case Nil
  then show ?case by simp
next
  case (Cons c u)
  then show ?case by (cases u) simp_all
qed

lemma splitBars_step:
  "a \<noteq> 124 \<Longrightarrow> 2 \<le> length t \<Longrightarrow> splitBars cur (a # t) = splitBars (cur @ [a]) t"
proof -
  assume a: "a \<noteq> 124" and "2 \<le> length t"
  then obtain b c cs where "t = b # c # cs"
    by (cases t; simp) (metis Suc_le_length_iff)
  with a show ?thesis by simp
qed

lemma splitBars_run:
  "124 \<notin> set u \<Longrightarrow> splitBars cur (u @ 124 # 124 # 124 # r) = (cur @ u) # splitBars [] r"
  by (induction u arbitrary: cur) (simp_all add: splitBars_step)

lemma splitSpaces_run:
  "\<forall>c \<in> set u. \<not> isWhiteSpace c \<Longrightarrow>
   splitSpaces b cur (u @ r) =
     (if u = [] then splitSpaces b cur r else splitSpaces False (cur @ u) r)"
  by (induction u arbitrary: b cur) simp_all

lemma trim_solid:
  assumes "s \<noteq> []" and "\<not> isWhiteSpace (hd s)" and "\<not> isWhiteSpace (last s)"
    and "list_all isWhiteSpace w"
  shows "trim (s @ w) = s"
proof -
  from assms(1,2) have a: "dropWhile isWhiteSpace (s @ w) = s @ w"
    by (cases s) simp_all
  have "dropWhile isWhiteSpace (rev w @ rev s) = dropWhile isWhiteSpace (rev s)"
    by (rule dropWhile_append2) (use assms(4) in \<open>simp add: list_all_iff\<close>)
  also have "\<dots> = rev s"
    using assms(1,3) by (cases s rule: rev_cases) simp_all
  finally show ?thesis
    by (simp add: trim_def a)
qed

text \<open>A text made of a one-word sentence in the letter z, a space and a one-word
  sentence in the letter y has no heading and these two sentences.\<close>

lemma wordSentence_facts:
  assumes "0 < n" and "k = 122 \<or> k = 121"
  shows "length (wordSentence n k) = n + 1" "wordSentence n k \<noteq> []"
    "hd (wordSentence n k) = k" "last (wordSentence n k) = 46"
    "set (wordSentence n k) = {k, 46}"
  using assms by (auto simp: wordSentence_def js_def hd_append)

lemma two_sentences_no_heading:
  assumes "0 < m" and "0 < n"
  shows "identifySections (wordSentence m 122 @ js '' '' @ wordSentence n 121) = []"
proof -
  let ?t = "wordSentence m 122 @ js '' '' @ wordSentence n 121"
  obtain m' where m: "m = Suc m'"
    using assms(1) by (cases m) auto
  have z: "?t = 122 # (replicate m' 122 @ js ''. '' @ wordSentence n 121)"
    by (simp add: wordSentence_def js_def m)
  have s: "set ?t = {122, 46, 32, 121}"
    using assms by (auto simp: wordSentence_facts js_def)
  have "10 \<notin> set ?t"
    unfolding s by simp
  then have l: "splitNewline [] ?t = [?t]"
    using splitNewline_one_line [of ?t "[]"] by simp
  have "\<forall>c \<in> set ?t. \<not> isLineTerminator c"
    unfolding s by (simp add: isLineTerminator_def)
  then have "lineStarts ?t = []"
    by (rule lineStarts_one_line)
  moreover have "p (122 # r) = None" if "p \<in> set SECTION_PATTERNS" for p r
    using that
    by (auto simp: SECTION_PATTERNS_def keywordPattern_def stripKeyword_def numberedPattern_def
        romanPattern_def itemPattern_def canon_def isLower_def isDigit_def isRoman_def js_def)
  ultimately have "firstHeading ?t = None"
    unfolding firstHeading_def matchLine_def
    by (intro firstSome_none) (simp add: z)
  then show ?thesis
    by (simp add: identifySections_def l)
qed

lemma two_sentences_split:
  assumes "0 < m" and "0 < n"
  shows "splitIntoSentences (wordSentence m 122 @ js '' '' @ wordSentence n 121)
           = [wordSentence m 122, wordSentence n 121]"
proof -
  let ?a = "wordSentence m 122" and ?b = "wordSentence n 121"
  have "markBoundaries False (?a @ js '' '' @ ?b)
          = replicate m 122 @ markBoundaries False (js ''.'' @ js '' '' @ ?b)"
    unfolding wordSentence_def append_assoc
    by (rule markBoundaries_run) (use assms in \<open>simp_all add: isTerminalMark_def isWhiteSpace_def\<close>)
  also have "markBoundaries False (js ''.'' @ js '' '' @ ?b)
          = js ''.|||'' @ markBoundaries True (replicate n 121 @ js ''.'')"
    by (simp add: js_def isTerminalMark_def isWhiteSpace_def wordSentence_def)
  also have "markBoundaries True (replicate n 121 @ js ''.'')
          = replicate n 121 @ markBoundaries False (js ''.'')"
    by (rule markBoundaries_run) (use assms in \<open>simp_all add: isTerminalMark_def isWhiteSpace_def\<close>)
  also have "markBoundaries False (js ''.'') = js ''.''"
    by (simp add: js_def)
  finally have mk: "markBoundaries False (?a @ js '' '' @ ?b) = ?a @ 124 # 124 # 124 # ?b"
    by (simp add: wordSentence_def js_def)
  have "splitBars [] (?a @ 124 # 124 # 124 # ?b) = [?a, ?b]"
    using assms by (simp add: splitBars_run splitBars_no_bar wordSentence_facts)
  moreover have "trim ?a = ?a" "trim ?b = ?b"
    using trim_solid [of ?a "[]"] trim_solid [of ?b "[]"] assms
    by (simp_all add: wordSentence_facts isWhiteSpace_def)
  ultimately show ?thesis
    using assms by (simp add: splitIntoSentences_def mk keepCapitals_same wordSentence_facts)
qed

text \<open>The overlap text of a chunk that holds one word is that word, followed by two
  spaces.\<close>

lemma overlap_of_one_word:
  assumes "0 < m"
  shows "getOverlapText (wordSentence m 122 @ js '' '') = wordSentence m 122 @ js ''  ''"
proof -
  let ?a = "wordSentence m 122"
  have "splitSpaces False [] (?a @ js '' '') = splitSpaces False ([] @ ?a) (js '' '')"
    using splitSpaces_run [of ?a False "[]" "js '' ''"] assms
    by (simp add: wordSentence_facts isWhiteSpace_def)
  then have "splitSpaces False [] (?a @ js '' '') = [?a, []]"
    by (simp add: js_def isWhiteSpace_def)
  then show ?thesis
    by (simp add: getOverlapText_def chunkOverlap_def js_def)
qed

text \<open>When the first sentence fits and the two together do not, the window closes a
  chunk with the first sentence and starts the next one with the overlap text, that
  is with the first sentence again.\<close>

lemma two_sentences_window:
  assumes "0 < m" and "0 < n"
    and "estimateTokens (wordSentence m 122 @ js '' '') \<le> maxChunkSize"
    and "estimateTokens (wordSentence m 122 @ js '' '' @ wordSentence n 121 @ js '' '') > maxChunkSize"
  shows "map content (chunkDocument uuid (wordSentence m 122 @ js '' '' @ wordSentence n 121))
           = [wordSentence m 122, wordSentence m 122 @ js ''  '' @ wordSentence n 121]"
proof -
  let ?a = "wordSentence m 122" and ?b = "wordSentence n 121"
  have t1: "trim (?a @ js '' '') = ?a"
    using trim_solid [of ?a "js '' ''"] assms(1)
    by (simp add: wordSentence_facts isWhiteSpace_def js_def)
  have "trim ((?a @ js ''  '' @ ?b) @ js '' '') = ?a @ js ''  '' @ ?b"
    by (rule trim_solid)
       (use assms(1,2) in \<open>simp_all add: wordSentence_facts isWhiteSpace_def js_def hd_append\<close>)
  then have t2: "trim (?a @ js ''  '' @ ?b @ js '' '') = ?a @ js ''  '' @ ?b"
    by simp
  have ne: "?a \<noteq> []"
    using assms(1) by (simp add: wordSentence_facts)
  obtain cs cur i j where f: "foldl (windowStep uuid) ([], [], 0, 0) [?a, ?b] = (cs, cur, i, j)"
    by (metis prod_cases4)
  have "fst (foldl (windowStep uuid) ([], [], 0, 0) [?a, ?b])
          = [\<lparr>chunkId = uuid 0, content = ?a, chunkIndex = 0,
              metadata = \<lparr>sectionName = None, clauseNumber = None, pageNumber = None,
                startChar = 0, endChar = int (length (?a @ js '' ''))\<rparr>\<rparr>]
      \<and> fst (snd (foldl (windowStep uuid) ([], [], 0, 0) [?a, ?b])) = ?a @ js ''  '' @ ?b @ js '' ''"
    using assms(3,4) not_less
    by (simp add: windowStep_def Let_def t1 ne overlap_of_one_word [OF assms(1)])
  with f have "map content cs = [?a]" and "cur = ?a @ js ''  '' @ ?b @ js '' ''"
    by simp_all
  with f have "map content (slidingWindowChunk uuid (?a @ js '' '' @ ?b)) = [?a, ?a @ js ''  '' @ ?b]"
    using ne
    by (simp add: slidingWindowChunk_def two_sentences_split [OF assms(1,2)] t2)
  then show ?thesis
    by (simp add: chunkDocument_def two_sentences_no_heading [OF assms(1,2)])
qed

text \<open>
  C2 on two texts. In \<open>twoLongSentences\<close> each sentence is estimated at 300 tokens, under
  the limit of 500, and the second chunk is estimated at 601 tokens: when the second
  sentence does not fit, the first chunk is closed and the next one starts with the
  overlap text, here the whole first sentence, to which the second sentence is added
  without a check against the limit. \<open>boundaryText\<close> is estimated at exactly 500 tokens and
  is split all the same, into chunks of 250 and 501 tokens: the running chunk is
  measured with a space added after each sentence, which takes it to 2001 code units.
\<close>

theorem chunk_limit_exceeded:
  "maxChunkSize = 500
   \<and> map estimateTokens (splitIntoSentences twoLongSentences) = [300, 300]
   \<and> map content (chunkDocument uuid twoLongSentences)
       = [wordSentence 1199 122, wordSentence 1199 122 @ js ''  '' @ wordSentence 1199 121]
   \<and> map (\<lambda>c. estimateTokens (content c)) (chunkDocument uuid twoLongSentences) = [300, 601]
   \<and> estimateTokens boundaryText = 500
   \<and> map content (chunkDocument uuid boundaryText)
       = [wordSentence 998 122, wordSentence 998 122 @ js ''  '' @ wordSentence 999 121]
   \<and> map (\<lambda>c. estimateTokens (content c)) (chunkDocument uuid boundaryText) = [250, 501]"
proof -
  have l: "length (wordSentence 1199 k) = 1200" "length (wordSentence 998 k) = 999"
    "length (wordSentence 999 k) = 1000" "length (js '' '') = 1" "length (js ''  '') = 2"
    for k :: nat
    by (simp_all add: wordSentence_def js_def)
  have c: "map content (chunkDocument uuid twoLongSentences)
       = [wordSentence 1199 122, wordSentence 1199 122 @ js ''  '' @ wordSentence 1199 121]"
    unfolding twoLongSentences_def
    by (rule two_sentences_window) (simp_all add: estimateTokens_def maxChunkSize_def l)
  have d: "map content (chunkDocument uuid boundaryText)
       = [wordSentence 998 122, wordSentence 998 122 @ js ''  '' @ wordSentence 999 121]"
    unfolding boundaryText_def
    by (rule two_sentences_window) (simp_all add: estimateTokens_def maxChunkSize_def l)
  have m: "map (\<lambda>c. estimateTokens (content c)) cs = map estimateTokens (map content cs)"
    for cs :: "documentChunk list"
    by simp
  have "map (\<lambda>c. estimateTokens (content c)) (chunkDocument uuid twoLongSentences) = [300, 601]"
    unfolding m c by (simp add: estimateTokens_def l)
  moreover have "map (\<lambda>c. estimateTokens (content c)) (chunkDocument uuid boundaryText) = [250, 501]"
    unfolding m d by (simp add: estimateTokens_def l)
  moreover have "map estimateTokens (splitIntoSentences twoLongSentences) = [300, 300]"
    by (simp add: twoLongSentences_def two_sentences_split estimateTokens_def l)
  moreover have "estimateTokens boundaryText = 500"
    by (simp add: boundaryText_def estimateTokens_def l)
  ultimately show ?thesis
    using c d by (simp add: maxChunkSize_def)
qed

section \<open>The norm of an embedding\<close>


















end
